theory Spec2Isabelle
  imports Complex_Main "HOL-Library.AList" "HOL-Library.List_Lexorder" "HOL-Library.Char_ord"
begin

section \<open>Python strings\<close>

text \<open>
  A Python \<open>str\<close> is modelled as a HOL \<open>string\<close>, one \<open>char\<close> per code point, so the
  model covers the code points below 256. The functions below are the \<open>str\<close> methods
  that \<open>scripts/gh-import-issues.py\<close> calls, restricted to that range.
\<close>

definition is_upper :: "char \<Rightarrow> bool" where
  "is_upper c =
     (let n = (of_char c :: nat)
      in (65 \<le> n \<and> n \<le> 90) \<or> (192 \<le> n \<and> n \<le> 222 \<and> n \<noteq> 215))"

text \<open>Upper and lower case letters below 256 differ in the bit of value 32 only.\<close>

definition lower_char :: "char \<Rightarrow> char" where
  "lower_char c =
     (if is_upper c
      then (case c of Char b0 b1 b2 b3 b4 b5 b6 b7 \<Rightarrow> Char b0 b1 b2 b3 b4 True b6 b7)
      else c)"

definition py_lower :: "string \<Rightarrow> string" where
  "py_lower s = map lower_char s"

definition is_space :: "char \<Rightarrow> bool" where
  "is_space c =
     (let n = (of_char c :: nat)
      in (9 \<le> n \<and> n \<le> 13) \<or> (28 \<le> n \<and> n \<le> 32) \<or> n = 133 \<or> n = 160)"

definition py_strip :: "string \<Rightarrow> string" where
  "py_strip s = rev (dropWhile is_space (rev (dropWhile is_space s)))"

definition is_ascii_digit :: "char \<Rightarrow> bool" where
  "is_ascii_digit c = (let n = (of_char c :: nat) in 48 \<le> n \<and> n \<le> 57)"

text \<open>\<open>str.isdigit\<close> also accepts the superscript digits U+00B2, U+00B3 and U+00B9.\<close>

definition is_digit_char :: "char \<Rightarrow> bool" where
  "is_digit_char c =
     (let n = (of_char c :: nat) in is_ascii_digit c \<or> n = 178 \<or> n = 179 \<or> n = 185)"

definition py_isdigit :: "string \<Rightarrow> bool" where
  "py_isdigit s = (s \<noteq> [] \<and> list_all is_digit_char s)"

fun starts_with :: "string \<Rightarrow> string \<Rightarrow> bool" where
  "starts_with s [] = True"
| "starts_with [] (p # ps) = False"
| "starts_with (c # cs) (p # ps) = (c = p \<and> starts_with cs ps)"

text \<open>\<open>py_in tok s\<close> is Python's \<open>tok in s\<close> on strings.\<close>

fun py_in :: "string \<Rightarrow> string \<Rightarrow> bool" where
  "py_in tok [] = (tok = [])"
| "py_in tok (c # cs) = (starts_with (c # cs) tok \<or> py_in tok cs)"

text \<open>\<open>s.split(sep)\<close> for a separator of one character.\<close>

fun py_split :: "char \<Rightarrow> string \<Rightarrow> string list" where
  "py_split sep [] = [[]]"
| "py_split sep (c # cs) =
     (if c = sep then [] # py_split sep cs
      else (case py_split sep cs of
              [] \<Rightarrow> [[c]]
            | p # ps \<Rightarrow> (c # p) # ps))"

text \<open>\<open>s.split(sep, 1)\<close>: cut at the first separator only.\<close>

definition py_split1 :: "char \<Rightarrow> string \<Rightarrow> string list" where
  "py_split1 sep s =
     (case dropWhile (\<lambda>c. c \<noteq> sep) s of
        [] \<Rightarrow> [s]
      | _ # rest \<Rightarrow> [takeWhile (\<lambda>c. c \<noteq> sep) s, rest])"

fun py_join :: "string \<Rightarrow> string list \<Rightarrow> string" where
  "py_join sep [] = []"
| "py_join sep [x] = x"
| "py_join sep (x # y # ys) = x @ sep @ py_join sep (y # ys)"

definition is_linebreak :: "char \<Rightarrow> bool" where
  "is_linebreak c =
     (let n = (of_char c :: nat) in (10 \<le> n \<and> n \<le> 13) \<or> (28 \<le> n \<and> n \<le> 30) \<or> n = 133)"

text \<open>
  \<open>str.splitlines\<close>: the first argument is the line read so far. A carriage return
  followed by a line feed is one line break.
\<close>

fun splitlines_from :: "string \<Rightarrow> string \<Rightarrow> string list" where
  "splitlines_from cur [] = (if cur = [] then [] else [cur])"
| "splitlines_from cur [c] = (if is_linebreak c then [cur] else [cur @ [c]])"
| "splitlines_from cur (c # d # cs) =
     (if c = CHR 0x0D \<and> d = CHR 0x0A then cur # splitlines_from [] cs
      else if is_linebreak c then cur # splitlines_from [] (d # cs)
      else splitlines_from (cur @ [c]) (d # cs))"

definition py_splitlines :: "string \<Rightarrow> string list" where
  "py_splitlines s = splitlines_from [] s"

fun dec_nat :: "nat \<Rightarrow> string" where
  "dec_nat n =
     (if n < 10 then [''0123456789'' ! n]
      else dec_nat (n div 10) @ [''0123456789'' ! (n mod 10)])"

declare dec_nat.simps [simp del]

text \<open>
  \<open>str(i)\<close> for an integer. The integers of the script come from \<open>json.loads\<close> and
  from \<open>int\<close>, which both refuse a literal of more than 4300 digits, so that none of
  them is beyond the limit at which \<open>str\<close> would raise.
\<close>

definition str_of_int :: "int \<Rightarrow> string" where
  "str_of_int i = (if i < 0 then CHR ''-'' # dec_nat (nat (- i)) else dec_nat (nat i))"

definition digit_val :: "char \<Rightarrow> int" where
  "digit_val c = int (of_char c) - 48"

text \<open>
  The digits of an integer literal: they may be grouped by single underscores.
\<close>

fun digits_ok :: "string \<Rightarrow> bool" where
  "digits_ok [] = False"
| "digits_ok [c] = is_ascii_digit c"
| "digits_ok (c # d # cs) =
     (is_ascii_digit c \<and> (if d = CHR ''_'' then digits_ok cs else digits_ok (d # cs)))"

definition digits_value :: "string \<Rightarrow> int" where
  "digits_value s = foldl (\<lambda>acc c. 10 * acc + digit_val c) 0 (filter is_ascii_digit s)"

section \<open>JSON values and the Python operations on them\<close>

text \<open>
  What \<open>json.loads\<close> returns. A \<open>JDict\<close> lists the items of a Python dict in insertion
  order. Numbers with a fraction or an exponent are outside the model.
\<close>

datatype json =
    JNull
  | JBool bool
  | JInt int
  | JStr string
  | JList "json list"
  | JDict "(string \<times> json) list"

datatype exn =
    RuntimeError string
  | JSONDecodeError string
  | KeyError string
  | ValueError string
  | TypeError string
  | AttributeError string
  | OverflowError string
  | OSError string
  | KeyboardInterrupt

text \<open>\<open>except Exception\<close> catches every exception of the model but KeyboardInterrupt.\<close>

definition is_Exception :: "exn \<Rightarrow> bool" where
  "is_Exception e = (e \<noteq> KeyboardInterrupt)"

definition sq :: string where
  "sq = [CHR 0x27]"

definition dq :: string where
  "dq = [CHR 0x22]"

definition bs :: string where
  "bs = [CHR 0x5C]"

definition nl :: string where
  "nl = [CHR 0x0A]"

definition hex2 :: "nat \<Rightarrow> string" where
  "hex2 n = [''0123456789abcdef'' ! (n div 16 mod 16), ''0123456789abcdef'' ! (n mod 16)]"

text \<open>\<open>repr\<close> of a string: the quote is chosen as CPython chooses it.\<close>

definition repr_char :: "char \<Rightarrow> char \<Rightarrow> string" where
  "repr_char q c =
     (let n = (of_char c :: nat) in
      if c = q \<or> c = CHR 0x5C then bs @ [c]
      else if n = 9 then bs @ ''t''
      else if n = 10 then bs @ ''n''
      else if n = 13 then bs @ ''r''
      else if n < 32 \<or> (127 \<le> n \<and> n \<le> 160) \<or> n = 173 then bs @ ''x'' @ hex2 n
      else [c])"

definition repr_str :: "string \<Rightarrow> string" where
  "repr_str s =
     (let q = (if CHR 0x27 \<in> set s \<and> CHR 0x22 \<notin> set s then CHR 0x22 else CHR 0x27)
      in [q] @ concat (map (repr_char q) s) @ [q])"

fun py_repr :: "json \<Rightarrow> string" where
  "py_repr JNull = ''None''"
| "py_repr (JBool b) = (if b then ''True'' else ''False'')"
| "py_repr (JInt i) = str_of_int i"
| "py_repr (JStr s) = repr_str s"
| "py_repr (JList xs) = ''['' @ py_join '', '' (map py_repr xs) @ '']''"
| "py_repr (JDict kvs) =
     ''{'' @ py_join '', '' (map (\<lambda>kv. repr_str (fst kv) @ '': '' @ py_repr (snd kv)) kvs) @ ''}''"

text \<open>\<open>str(x)\<close>.\<close>

definition py_str :: "json \<Rightarrow> string" where
  "py_str v = (case v of JStr s \<Rightarrow> s | _ \<Rightarrow> py_repr v)"

definition type_name :: "json \<Rightarrow> string" where
  "type_name v =
     (case v of
        JNull \<Rightarrow> ''NoneType''
      | JBool _ \<Rightarrow> ''bool''
      | JInt _ \<Rightarrow> ''int''
      | JStr _ \<Rightarrow> ''str''
      | JList _ \<Rightarrow> ''list''
      | JDict _ \<Rightarrow> ''dict'')"

text \<open>
  \<open>int(s)\<close> for a string. Surrounding whitespace is dropped and one sign is allowed;
  then come the digits, which end at the first character that is neither a digit nor an
  underscore. A literal of more than 4300 digits is refused, and this before the
  characters after the digits are looked at. The message of an invalid literal quotes
  the first 200 characters of the \<open>repr\<close> of the argument. The message texts of the
  exceptions the interpreter raises are those of CPython 3.11.
\<close>

definition invalid_literal :: "string \<Rightarrow> exn" where
  "invalid_literal s =
     ValueError (''invalid literal for int() with base 10: '' @ take 200 (repr_str s))"

definition digit_limit :: "nat \<Rightarrow> exn" where
  "digit_limit n =
     ValueError (''Exceeds the limit (4300 digits) for integer string conversion: value has ''
       @ dec_nat n @ '' digits; use sys.set_int_max_str_digits() to increase the limit'')"

definition int_of_str :: "string \<Rightarrow> exn + int" where
  "int_of_str s =
     (let t = py_strip s;
          neg = (t \<noteq> [] \<and> hd t = CHR ''-'');
          u = (if t \<noteq> [] \<and> (hd t = CHR ''-'' \<or> hd t = CHR ''+'') then tl t else t);
          lit = takeWhile (\<lambda>c. is_ascii_digit c \<or> c = CHR ''_'') u;
          rest = dropWhile (\<lambda>c. is_ascii_digit c \<or> c = CHR ''_'') u;
          n = length (filter is_ascii_digit lit)
      in if \<not> digits_ok lit then Inl (invalid_literal s)
         else if 4300 < n then Inl (digit_limit n)
         else if rest \<noteq> [] then Inl (invalid_literal s)
         else Inr (if neg then - digits_value lit else digits_value lit))"

text \<open>\<open>int(x)\<close>, \<open>x[key]\<close> and \<open>x.get(key)\<close> for a string key.\<close>

definition py_int :: "json \<Rightarrow> exn + int" where
  "py_int v =
     (case v of
        JInt i \<Rightarrow> Inr i
      | JBool b \<Rightarrow> Inr (if b then 1 else 0)
      | JStr s \<Rightarrow> int_of_str s
      | _ \<Rightarrow>
          Inl (TypeError
            (''int() argument must be a string, a bytes-like object or a real number, not ''
               @ sq @ type_name v @ sq)))"

definition py_getitem :: "json \<Rightarrow> string \<Rightarrow> exn + json" where
  "py_getitem v key =
     (case v of
        JDict kvs \<Rightarrow> (case map_of kvs key of Some x \<Rightarrow> Inr x | None \<Rightarrow> Inl (KeyError key))
      | JList _ \<Rightarrow> Inl (TypeError ''list indices must be integers or slices, not str'')
      | JStr _ \<Rightarrow> Inl (TypeError (''string indices must be integers, not '' @ sq @ ''str'' @ sq))
      | _ \<Rightarrow> Inl (TypeError (sq @ type_name v @ sq @ '' object is not subscriptable'')))"

definition py_get :: "json \<Rightarrow> string \<Rightarrow> exn + json" where
  "py_get v key =
     (case v of
        JDict kvs \<Rightarrow> (case map_of kvs key of Some x \<Rightarrow> Inr x | None \<Rightarrow> Inr JNull)
      | _ \<Rightarrow>
          Inl (AttributeError
            (sq @ type_name v @ sq @ '' object has no attribute '' @ sq @ ''get'' @ sq)))"

text \<open>\<open>str(e)\<close> for an exception; for a KeyError it is the \<open>repr\<close> of the key.\<close>

definition exn_str :: "exn \<Rightarrow> string" where
  "exn_str e =
     (case e of
        RuntimeError m \<Rightarrow> m
      | JSONDecodeError m \<Rightarrow> m
      | KeyError k \<Rightarrow> repr_str k
      | ValueError m \<Rightarrow> m
      | TypeError m \<Rightarrow> m
      | AttributeError m \<Rightarrow> m
      | OverflowError m \<Rightarrow> m
      | OSError m \<Rightarrow> m
      | KeyboardInterrupt \<Rightarrow> [])"

text \<open>\<open>json.dumps\<close> with its default separators and \<open>ensure_ascii\<close>.\<close>

definition dumps_char :: "char \<Rightarrow> string" where
  "dumps_char c =
     (let n = (of_char c :: nat) in
      if n = 34 then bs @ dq
      else if n = 92 then bs @ bs
      else if n = 10 then bs @ ''n''
      else if n = 13 then bs @ ''r''
      else if n = 9 then bs @ ''t''
      else if n = 8 then bs @ ''b''
      else if n = 12 then bs @ ''f''
      else if n < 32 \<or> 126 < n then bs @ ''u00'' @ hex2 n
      else [c])"

definition dumps_str :: "string \<Rightarrow> string" where
  "dumps_str s = dq @ concat (map dumps_char s) @ dq"

fun json_dumps :: "json \<Rightarrow> string" where
  "json_dumps JNull = ''null''"
| "json_dumps (JBool b) = (if b then ''true'' else ''false'')"
| "json_dumps (JInt i) = str_of_int i"
| "json_dumps (JStr s) = dumps_str s"
| "json_dumps (JList xs) = ''['' @ py_join '', '' (map json_dumps xs) @ '']''"
| "json_dumps (JDict kvs) =
     ''{'' @ py_join '', '' (map (\<lambda>kv. dumps_str (fst kv) @ '': '' @ json_dumps (snd kv)) kvs) @ ''}''"

section \<open>The outside world\<close>

text \<open>
  A Python \<open>float\<close>: a finite number, an infinity, or not a number. The finite ones are
  modelled as real numbers. The script multiplies floats by powers of two only, which
  is exact for a double unless the product leaves the range: it is then an infinity.
\<close>

datatype pyfloat = Fin real | PInf | NInf | NaN

text \<open>\<open>a > b\<close> and \<open>a >= b\<close>: every comparison with NaN is false.\<close>

fun float_gt :: "pyfloat \<Rightarrow> pyfloat \<Rightarrow> bool" where
  "float_gt NaN b = False"
| "float_gt a NaN = False"
| "float_gt (Fin x) (Fin y) = (y < x)"
| "float_gt PInf b = (b \<noteq> PInf)"
| "float_gt a NInf = (a \<noteq> NInf)"
| "float_gt a b = False"

fun float_ge :: "pyfloat \<Rightarrow> pyfloat \<Rightarrow> bool" where
  "float_ge NaN b = False"
| "float_ge a NaN = False"
| "float_ge (Fin x) (Fin y) = (y \<le> x)"
| "float_ge PInf b = True"
| "float_ge a NInf = True"
| "float_ge a b = False"

text \<open>\<open>max(a, b)\<close> keeps its first argument unless the second is greater.\<close>

definition py_max :: "pyfloat \<Rightarrow> pyfloat \<Rightarrow> pyfloat" where
  "py_max a b = (if float_gt b a then b else a)"

text \<open>The product of a float and \<open>2 ** k\<close>, for \<open>k\<close> below 1024.\<close>

definition float_scale :: "pyfloat \<Rightarrow> nat \<Rightarrow> pyfloat" where
  "float_scale d k =
     (case d of
        Fin x \<Rightarrow>
          if 2 ^ 1024 \<le> \<bar>x\<bar> * 2 ^ k then (if 0 < x then PInf else NInf)
          else Fin (x * 2 ^ k)
      | _ \<Rightarrow> d)"

text \<open>
  \<open>retry_base_delay * (2 ** (attempt - 1))\<close>, with \<open>attempt\<close> at least 1: the power is
  an integer, and its conversion to a float raises when it is \<open>2 ** 1024\<close> or more.
\<close>

definition backoff :: "pyfloat \<Rightarrow> int \<Rightarrow> exn + pyfloat" where
  "backoff retry_base_delay attempt =
     (if 1024 \<le> nat (attempt - 1) then Inl (OverflowError ''int too large to convert to float'')
      else Inr (float_scale retry_base_delay (nat (attempt - 1))))"

text \<open>
  \<open>run\<close> starts the \<open>gh\<close> command line tool and waits for it. What the tool answers is
  not decided by the script, so the model takes it from an environment: \<open>respond\<close> maps
  everything that has happened so far, the command line and the bytes on standard input
  to what becomes of the call: the exit status, standard output and standard error of
  the command (both decoded), an interrupt by the user while the call runs, or the
  exception that \<open>subprocess.Popen\<close> raises instead of starting the command (a
  FileNotFoundError, which is an OSError, when \<open>gh\<close> is not installed; a ValueError
  for an argument that contains the character NUL).

  \<open>nap\<close> is \<open>time.sleep\<close>: whether the call with that argument returns after that time,
  or the exception it raises instead (an OverflowError for a time beyond the range of
  the clock, a ValueError for a negative time or NaN, an interrupt by the user).
  \<open>loads\<close> is \<open>json.loads\<close>: \<open>Inl\<close> carries the text of the JSONDecodeError; a text
  for which \<open>json.loads\<close> raises another exception (an integer of more than 4300
  digits) is outside the model. The theorems hold for every environment.

  Everything the script does to the outside is recorded in a trace of events: \<open>Ran\<close>
  for each call of \<open>subprocess.Popen\<close>, with the command line and the input, whatever
  becomes of the call; \<open>Slept\<close> for each call of \<open>time.sleep\<close> that returns; \<open>Printed\<close>
  for the messages, which are taken to reach the terminal. The progress bar and the
  header line of the import are output only and are left out.
\<close>

datatype message =
    DryRunLabel string string
  | WarnLabel string string
  | DryRunMilestone string string string
  | DryRunPost string json
  | DryRunCommand "string list"
  | RetryNote int int string pyfloat
  | InfoMilestoneMissing string string
  | SkipRow nat
  | CsvNotFound string
  | NoRows
  | RowError string
  | Summary "(nat \<times> string \<times> string) list" "string list"
  | Aborted

datatype event =
    Ran "string list" "string option"
  | Slept pyfloat
  | Printed message

datatype response =
    Completed int string string
  | Interrupted
  | Failed exn

record env =
  respond :: "event list \<Rightarrow> string list \<Rightarrow> string option \<Rightarrow> response"
  nap :: "event list \<Rightarrow> pyfloat \<Rightarrow> exn option"
  loads :: "string \<Rightarrow> string + json"

type_synonym 'a io = "event list \<Rightarrow> (exn + 'a) \<times> event list"

definition run :: "env \<Rightarrow> string list \<Rightarrow> string option \<Rightarrow> (int \<times> string \<times> string) io" where
  "run E cmd input_bytes tr =
     (case respond E tr cmd input_bytes of
        Interrupted \<Rightarrow> (Inl KeyboardInterrupt, tr @ [Ran cmd input_bytes])
      | Failed e \<Rightarrow> (Inl e, tr @ [Ran cmd input_bytes])
      | Completed code out err \<Rightarrow> (Inr (code, out, err), tr @ [Ran cmd input_bytes]))"

text \<open>\<open>time.sleep(secs)\<close>.\<close>

definition py_sleep :: "env \<Rightarrow> pyfloat \<Rightarrow> unit io" where
  "py_sleep E secs tr =
     (case nap E tr secs of
        None \<Rightarrow> (Inr (), tr @ [Slept secs])
      | Some e \<Rightarrow> (Inl e, tr))"

definition gh_json :: "env \<Rightarrow> string list \<Rightarrow> json io" where
  "gh_json E cmd tr =
     (case run E cmd None tr of
        (Inl e, tr1) \<Rightarrow> (Inl e, tr1)
      | (Inr (code, out, err), tr1) \<Rightarrow>
          if code \<noteq> 0
          then (Inl (RuntimeError (''Command failed: '' @ py_join '' '' cmd @ nl @ err)), tr1)
          else (case loads E out of
                  Inr v \<Rightarrow> (Inr v, tr1)
                | Inl msg \<Rightarrow>
                    (Inl (RuntimeError
                       (''Failed to parse JSON from: '' @ py_join '' '' cmd @ nl
                          @ ''Output was:'' @ nl @ out @ nl @ ''Error: '' @ msg)), tr1)))"

text \<open>
  The result is whatever JSON value stands under \<open>nameWithOwner\<close>; the caller finds out
  whether it is a string.
\<close>

definition ensure_repo_name_with_owner :: "env \<Rightarrow> string option \<Rightarrow> json io" where
  "ensure_repo_name_with_owner E repo tr =
     (if repo \<noteq> None \<and> repo \<noteq> Some [] then (Inr (JStr (the repo)), tr)
      else (case gh_json E [''gh'', ''repo'', ''view'', ''--json'', ''nameWithOwner''] tr of
              (Inl e, tr1) \<Rightarrow> (Inl e, tr1)
            | (Inr data, tr1) \<Rightarrow>
                (case data of
                   JDict kvs \<Rightarrow>
                     (case map_of kvs ''nameWithOwner'' of
                        Some v \<Rightarrow> (Inr v, tr1)
                      | None \<Rightarrow>
                          (Inl (RuntimeError
                             ''Could not resolve current repository via `gh repo view`. Pass --repo.''),
                           tr1))
                 | _ \<Rightarrow>
                     (Inl (RuntimeError
                        ''Could not resolve current repository via `gh repo view`. Pass --repo.''),
                      tr1))))"

text \<open>\<open>split_list\<close>: the items of a cell, separated by semicolons.\<close>

definition split_list :: "string \<Rightarrow> string list" where
  "split_list cell =
     (if cell = [] then []
      else filter (\<lambda>p. p \<noteq> []) (map py_strip (py_split (CHR '';'') cell)))"

record issue_row =
  title :: string
  body :: string
  labels :: "string list"
  assignees :: "string list"
  milestone :: "string option"
  project_owner :: "string option"
  project_number :: "int option"
  state :: string
  close_reason :: "string option"

subsection \<open>Labels\<close>

definition label_name :: "json \<Rightarrow> json list" where
  "label_name item =
     (case item of
        JDict kvs \<Rightarrow> [case map_of kvs ''name'' of Some v \<Rightarrow> v | None \<Rightarrow> JStr []]
      | _ \<Rightarrow> [])"

definition get_existing_labels :: "env \<Rightarrow> string \<Rightarrow> (json list) io" where
  "get_existing_labels E repo tr =
     (case gh_json E [''gh'', ''label'', ''list'', ''--json'', ''name'', ''-R'', repo] tr of
        (Inl e, tr1) \<Rightarrow> (Inl e, tr1)
      | (Inr data, tr1) \<Rightarrow>
          (case data of
             JList items \<Rightarrow> (Inr (concat (map label_name items)), tr1)
           | _ \<Rightarrow> (Inr [], tr1)))"

text \<open>\<open>map(str.lower, names)\<close>: \<open>str.lower\<close> refuses a value that is not a string.\<close>

fun lower_all :: "json list \<Rightarrow> exn + string list" where
  "lower_all [] = Inr []"
| "lower_all (v # vs) =
     (case v of
        JStr s \<Rightarrow> (case lower_all vs of Inl e \<Rightarrow> Inl e | Inr ls \<Rightarrow> Inr (py_lower s # ls))
      | _ \<Rightarrow>
          Inl (TypeError
            (''descriptor '' @ sq @ ''lower'' @ sq @ '' for '' @ sq @ ''str'' @ sq
               @ '' objects doesn'' @ sq @ ''t apply to a '' @ sq @ type_name v @ sq @ '' object'')))"

text \<open>The loop of \<open>ensure_labels\<close> over the labels still to be looked at.\<close>

fun ensure_labels_loop :: "env \<Rightarrow> string \<Rightarrow> string list \<Rightarrow> bool \<Rightarrow> string list \<Rightarrow> unit io" where
  "ensure_labels_loop E repo existing dry_run [] tr = (Inr (), tr)"
| "ensure_labels_loop E repo existing dry_run (label # rest) tr =
     (if py_lower label \<in> set existing then ensure_labels_loop E repo existing dry_run rest tr
      else if dry_run
      then ensure_labels_loop E repo existing dry_run rest (tr @ [Printed (DryRunLabel label repo)])
      else (case run E [''gh'', ''label'', ''create'', label, ''-R'', repo] None tr of
              (Inl e, tr1) \<Rightarrow> (Inl e, tr1)
            | (Inr (code, out, err), tr1) \<Rightarrow>
                if code \<noteq> 0
                then ensure_labels_loop E repo existing dry_run rest
                       (tr1 @ [Printed (WarnLabel label err)])
                else ensure_labels_loop E repo existing dry_run rest tr1))"

definition ensure_labels :: "env \<Rightarrow> string \<Rightarrow> string list \<Rightarrow> bool \<Rightarrow> unit io" where
  "ensure_labels E repo lbls dry_run tr =
     (if lbls = [] then (Inr (), tr)
      else (case get_existing_labels E repo tr of
              (Inl e, tr1) \<Rightarrow> (Inl e, tr1)
            | (Inr names, tr1) \<Rightarrow>
                (case lower_all names of
                   Inl e \<Rightarrow> (Inl e, tr1)
                 | Inr existing \<Rightarrow> ensure_labels_loop E repo existing dry_run lbls tr1)))"

subsection \<open>Milestones\<close>

text \<open>A Python dict from milestone titles to numbers, as an association list.\<close>

type_synonym ms_map = "(string \<times> int) list"

text \<open>The fallback of \<open>get_milestones_map\<close>: the lists found on the lines, merged.\<close>

fun merge_lines :: "env \<Rightarrow> string list \<Rightarrow> json list" where
  "merge_lines E [] = []"
| "merge_lines E (line # rest) =
     (let l = py_strip line in
      if l = [] then merge_lines E rest
      else (case loads E l of
              Inr (JList part) \<Rightarrow> part @ merge_lines E rest
            | _ \<Rightarrow> merge_lines E rest))"

text \<open>The loop that fills \<open>mapping\<close>; the number is converted before the title.\<close>

fun milestones_of :: "json list \<Rightarrow> ms_map \<Rightarrow> exn + ms_map" where
  "milestones_of [] mapping = Inr mapping"
| "milestones_of (m # rest) mapping =
     (case m of
        JDict kvs \<Rightarrow>
          (case (map_of kvs ''title'', map_of kvs ''number'') of
             (Some t, Some n) \<Rightarrow>
               (case py_int n of
                  Inl e \<Rightarrow> Inl e
                | Inr i \<Rightarrow> milestones_of rest (AList.update (py_lower (py_str t)) i mapping))
           | _ \<Rightarrow> milestones_of rest mapping)
      | _ \<Rightarrow> milestones_of rest mapping)"

definition get_milestones_map :: "env \<Rightarrow> string \<Rightarrow> string \<Rightarrow> ms_map io" where
  "get_milestones_map E owner repo_name tr =
     (case run E [''gh'', ''api'', ''--paginate'',
                  ''repos/'' @ owner @ ''/'' @ repo_name @ ''/milestones''] None tr of
        (Inl e, tr1) \<Rightarrow> (Inl e, tr1)
      | (Inr (code, out, err), tr1) \<Rightarrow>
          if code \<noteq> 0 then (Inl (RuntimeError (''Failed to list milestones: '' @ err)), tr1)
          else
            (let items = (case loads E out of
                            Inr v \<Rightarrow> v
                          | Inl _ \<Rightarrow> JList (merge_lines E (py_splitlines out)))
             in case items of
                  JList ms \<Rightarrow>
                    (case milestones_of ms [] of
                       Inl e \<Rightarrow> (Inl e, tr1)
                     | Inr mapping \<Rightarrow> (Inr mapping, tr1))
                | _ \<Rightarrow> (Inr [], tr1)))"

definition ensure_milestone :: "env \<Rightarrow> string \<Rightarrow> string \<Rightarrow> string \<Rightarrow> bool \<Rightarrow> int io" where
  "ensure_milestone E owner repo_name ttl dry_run tr =
     (case get_milestones_map E owner repo_name tr of
        (Inl e, tr1) \<Rightarrow> (Inl e, tr1)
      | (Inr ms_map, tr1) \<Rightarrow>
          (case map_of ms_map (py_lower ttl) of
             Some n \<Rightarrow> (Inr n, tr1)
           | None \<Rightarrow>
               if dry_run
               then (Inr (- 1), tr1 @ [Printed (DryRunMilestone ttl owner repo_name)])
               else
                 (case run E [''gh'', ''api'', ''-X'', ''POST'',
                              ''repos/'' @ owner @ ''/'' @ repo_name @ ''/milestones'',
                              ''-f'', ''title='' @ ttl] None tr1 of
                    (Inl e, tr2) \<Rightarrow> (Inl e, tr2)
                  | (Inr (code, out, err), tr2) \<Rightarrow>
                      if code \<noteq> 0
                      then (Inl (RuntimeError
                              (''Failed to create milestone '' @ sq @ ttl @ sq @ '': '' @ err)), tr2)
                      else
                        (case loads E out of
                           Inl msg \<Rightarrow> (Inl (JSONDecodeError msg), tr2)
                         | Inr data \<Rightarrow>
                             (case py_get data ''number'' of
                                Inl e \<Rightarrow> (Inl e, tr2)
                              | Inr v \<Rightarrow>
                                  (case py_int v of
                                     Inl e \<Rightarrow> (Inl e, tr2)
                                   | Inr n \<Rightarrow> (Inr n, tr2)))))))"

subsection \<open>Creating an issue\<close>

definition issue_payload :: "issue_row \<Rightarrow> int option \<Rightarrow> json" where
  "issue_payload row milestone_number =
     JDict ([(''title'', JStr (title row))]
       @ (if body row \<noteq> [] then [(''body'', JStr (body row))] else [])
       @ (if labels row \<noteq> [] then [(''labels'', JList (map JStr (labels row)))] else [])
       @ (if assignees row \<noteq> [] then [(''assignees'', JList (map JStr (assignees row)))] else [])
       @ (case milestone_number of
            None \<Rightarrow> []
          | Some n \<Rightarrow> if n \<noteq> 0 \<and> n > 0 then [(''milestone'', JInt n)] else []))"

definition create_issue_via_api ::
  "env \<Rightarrow> string \<Rightarrow> string \<Rightarrow> issue_row \<Rightarrow> int option \<Rightarrow> bool \<Rightarrow> (int \<times> string) io" where
  "create_issue_via_api E owner repo_name row milestone_number dry_run tr =
     (let endpoint = ''repos/'' @ owner @ ''/'' @ repo_name @ ''/issues'';
          payload = issue_payload row milestone_number
      in if dry_run then (Inr (- 1, ''DRY-RUN''), tr @ [Printed (DryRunPost endpoint payload)])
         else
           (case run E [''gh'', ''api'', ''-X'', ''POST'', endpoint, ''--input'', ''-'']
                   (Some (json_dumps payload)) tr of
              (Inl e, tr1) \<Rightarrow> (Inl e, tr1)
            | (Inr (code, out, err), tr1) \<Rightarrow>
                if code \<noteq> 0
                then (Inl (RuntimeError
                        (''Issue creation failed for '' @ sq @ title row @ sq @ '': '' @ err @ nl
                           @ ''Request: '' @ json_dumps payload)), tr1)
                else
                  (case loads E out of
                     Inl msg \<Rightarrow> (Inl (JSONDecodeError msg), tr1)
                   | Inr data \<Rightarrow>
                       (case py_getitem data ''number'' of
                          Inl e \<Rightarrow> (Inl e, tr1)
                        | Inr n \<Rightarrow>
                            (case py_int n of
                               Inl e \<Rightarrow> (Inl e, tr1)
                             | Inr number \<Rightarrow>
                                 (case py_getitem data ''html_url'' of
                                    Inl e \<Rightarrow> (Inl e, tr1)
                                  | Inr u \<Rightarrow> (Inr (number, py_str u), tr1)))))))"

definition transient_tokens :: "string list" where
  "transient_tokens =
     [''timeout'', ''timed out'', ''rate limit'', ''502'', ''503'', ''500'', ''network'',
      ''temporarily unavailable'']"

definition transient :: "exn \<Rightarrow> bool" where
  "transient e = list_ex (\<lambda>token. py_in token (py_lower (exn_str e))) transient_tokens"

text \<open>
  The \<open>while True\<close> loop of \<open>create_issue_with_retry\<close>; \<open>attempt0\<close> is the value of
  \<open>attempt\<close> when an iteration starts. An exception of the product or of
  \<open>time.sleep\<close> is raised inside the \<open>except\<close> block and leaves the function.
\<close>

function create_issue_with_retry_from ::
  "env \<Rightarrow> string \<Rightarrow> string \<Rightarrow> issue_row \<Rightarrow> int option \<Rightarrow> bool \<Rightarrow> int \<Rightarrow> pyfloat \<Rightarrow> int
     \<Rightarrow> (int \<times> string) io" where
  "create_issue_with_retry_from E owner repo_name row milestone_number dry_run n_retries
       retry_delay attempt0 tr =
     (let attempt = attempt0 + 1 in
      case create_issue_via_api E owner repo_name row milestone_number dry_run tr of
        (Inr r, tr1) \<Rightarrow> (Inr r, tr1)
      | (Inl e, tr1) \<Rightarrow>
          if \<not> is_Exception e then (Inl e, tr1)
          else if attempt \<ge> n_retries \<or> \<not> transient e \<or> dry_run then (Inl e, tr1)
          else
            (case backoff retry_delay attempt of
               Inl e1 \<Rightarrow> (Inl e1, tr1)
             | Inr sleep_for \<Rightarrow>
                 (case py_sleep E sleep_for
                         (tr1 @ [Printed (RetryNote attempt n_retries (exn_str e) sleep_for)]) of
                    (Inl e2, tr2) \<Rightarrow> (Inl e2, tr2)
                  | (Inr _, tr2) \<Rightarrow>
                      create_issue_with_retry_from E owner repo_name row milestone_number
                        dry_run n_retries retry_delay attempt tr2)))"
  by pat_completeness auto
termination
  by (relation "measure (\<lambda>(E, owner, repo_name, row, milestone_number, dry_run, n_retries,
          retry_delay, attempt0, tr). nat (n_retries - attempt0))") auto

declare create_issue_with_retry_from.simps [simp del]

definition create_issue_with_retry ::
  "env \<Rightarrow> string \<Rightarrow> string \<Rightarrow> issue_row \<Rightarrow> int option \<Rightarrow> bool \<Rightarrow> int \<Rightarrow> pyfloat
     \<Rightarrow> (int \<times> string) io" where
  "create_issue_with_retry E owner repo_name row milestone_number dry_run n_retries retry_delay tr =
     create_issue_with_retry_from E owner repo_name row milestone_number dry_run n_retries
       retry_delay 0 tr"

subsection \<open>After the creation\<close>

definition add_issue_to_project_v2 :: "env \<Rightarrow> string \<Rightarrow> int \<Rightarrow> string \<Rightarrow> bool \<Rightarrow> unit io" where
  "add_issue_to_project_v2 E p_owner p_number issue_url dry_run tr =
     (let args = [''gh'', ''project'', ''item-add'', str_of_int p_number, ''--owner'', p_owner,
                  ''--url'', issue_url]
      in if dry_run then (Inr (), tr @ [Printed (DryRunCommand args)])
         else
           (case run E args None tr of
              (Inl e, tr1) \<Rightarrow> (Inl e, tr1)
            | (Inr (code, out, err), tr1) \<Rightarrow>
                if code \<noteq> 0
                then (Inl (RuntimeError
                        (''Failed to add issue to project '' @ p_owner @ ''/''
                           @ str_of_int p_number @ '': '' @ err)), tr1)
                else (Inr (), tr1)))"

definition close_issue :: "env \<Rightarrow> string \<Rightarrow> string \<Rightarrow> string option \<Rightarrow> bool \<Rightarrow> unit io" where
  "close_issue E issue_url_or_number repo reason dry_run tr =
     (let args = [''gh'', ''issue'', ''close'', issue_url_or_number, ''-R'', repo]
                   @ (case reason of
                        None \<Rightarrow> []
                      | Some r \<Rightarrow> if r \<noteq> [] then [''--reason'', r] else [])
      in if dry_run then (Inr (), tr @ [Printed (DryRunCommand args)])
         else
           (case run E args None tr of
              (Inl e, tr1) \<Rightarrow> (Inl e, tr1)
            | (Inr (code, out, err), tr1) \<Rightarrow>
                if code \<noteq> 0
                then (Inl (RuntimeError
                        (''Failed to close issue '' @ issue_url_or_number @ '': '' @ err)), tr1)
                else (Inr (), tr1)))"

section \<open>Reading the CSV file\<close>

text \<open>
  \<open>csv.DictReader\<close> is library code: the model starts from the dicts it yields, one per
  data line. A key is a header cell, or \<open>None\<close> when the line has more cells than the
  header; the value is then the list of the surplus cells. A header cell without a cell
  on the line has the value \<open>None\<close>.
\<close>

datatype cell = CNone | CStr string | CList "string list"

type_synonym raw_row = "(string option \<times> cell) list"

definition norm_key :: "string option \<Rightarrow> string" where
  "norm_key k = py_lower (py_strip (case k of None \<Rightarrow> [] | Some s \<Rightarrow> s))"

definition norm_value :: "cell \<Rightarrow> exn + string" where
  "norm_value v =
     (case v of
        CNone \<Rightarrow> Inr []
      | CStr s \<Rightarrow> Inr (py_strip s)
      | CList xs \<Rightarrow>
          if xs = [] then Inr []
          else Inl (AttributeError
                 (sq @ ''list'' @ sq @ '' object has no attribute '' @ sq @ ''strip'' @ sq)))"

text \<open>The dict comprehension that builds \<open>norm\<close> (here \<open>nrm\<close>): a later item replaces an earlier one.\<close>

fun normalize_keys :: "raw_row \<Rightarrow> (string \<times> string) list \<Rightarrow> exn + (string \<times> string) list" where
  "normalize_keys [] nrm = Inr nrm"
| "normalize_keys ((k, v) # rest) nrm =
     (case norm_value v of
        Inl e \<Rightarrow> Inl e
      | Inr s \<Rightarrow> normalize_keys rest (AList.update (norm_key k) s nrm))"

text \<open>\<open>norm.get(key, "")\<close> and \<open>norm.get(key) or None\<close>.\<close>

definition get_or_empty :: "(string \<times> string) list \<Rightarrow> string \<Rightarrow> string" where
  "get_or_empty nrm key = (case map_of nrm key of None \<Rightarrow> [] | Some v \<Rightarrow> v)"

definition get_or_none :: "(string \<times> string) list \<Rightarrow> string \<Rightarrow> string option" where
  "get_or_none nrm key =
     (case map_of nrm key of None \<Rightarrow> None | Some v \<Rightarrow> if v = [] then None else Some v)"

definition parse_project_number :: "string option \<Rightarrow> exn + int option" where
  "parse_project_number pn =
     (case pn of
        None \<Rightarrow> Inr None
      | Some s \<Rightarrow>
          if s \<noteq> [] \<and> py_isdigit s
          then (case int_of_str s of
                  Inr i \<Rightarrow> Inr (Some i)
                | Inl e \<Rightarrow> Inl e)
          else Inr None)"

text \<open>The loop of \<open>read_csv\<close>; \<open>i\<close> is the line number, which starts at 2.\<close>

fun read_csv_from :: "nat \<Rightarrow> raw_row list \<Rightarrow> (issue_row list) io" where
  "read_csv_from i [] tr = (Inr [], tr)"
| "read_csv_from i (raw # rest) tr =
     (if raw = [] then read_csv_from (Suc i) rest tr
      else
        (case normalize_keys raw [] of
           Inl e \<Rightarrow> (Inl e, tr)
         | Inr nrm \<Rightarrow>
             if get_or_empty nrm ''title'' = []
             then read_csv_from (Suc i) rest (tr @ [Printed (SkipRow i)])
             else
               (case parse_project_number (get_or_none nrm ''project_number'') of
                  Inl e \<Rightarrow> (Inl e, tr)
                | Inr pnum \<Rightarrow>
                    (case read_csv_from (Suc i) rest tr of
                       (Inl e, tr1) \<Rightarrow> (Inl e, tr1)
                     | (Inr rows, tr1) \<Rightarrow>
                         (Inr (\<lparr> title = get_or_empty nrm ''title'',
                                 body = get_or_empty nrm ''body'',
                                 labels = split_list (get_or_empty nrm ''labels''),
                                 assignees = split_list (get_or_empty nrm ''assignees''),
                                 milestone = get_or_none nrm ''milestone'',
                                 project_owner = get_or_none nrm ''project_owner'',
                                 project_number = pnum,
                                 state = py_lower (case get_or_none nrm ''state'' of
                                                     None \<Rightarrow> ''open''
                                                   | Some v \<Rightarrow> v),
                                 close_reason = get_or_none nrm ''close_reason'' \<rparr> # rows),
                          tr1)))))"

definition read_csv :: "raw_row list \<Rightarrow> (issue_row list) io" where
  "read_csv raws tr = read_csv_from 2 raws tr"

section \<open>The run\<close>

record args =
  arg_csv :: string
  arg_repo :: "string option"
  arg_delay :: pyfloat
  arg_dry_run :: bool
  arg_no_label_create :: bool
  arg_no_milestone_create :: bool
  arg_retries :: int
  arg_retry_base_delay :: pyfloat
  arg_no_progress :: bool

text \<open>
  The first block of the \<open>try\<close> of a row: the milestone number to attach, and the
  milestone cache after the block. The cache keeps what was assigned to it also when a
  later call raises.
\<close>

definition resolve_milestone ::
  "env \<Rightarrow> args \<Rightarrow> string \<Rightarrow> string \<Rightarrow> issue_row \<Rightarrow> ms_map option
     \<Rightarrow> event list \<Rightarrow> (exn + int option) \<times> ms_map option \<times> event list" where
  "resolve_milestone E A owner repo_name row cache tr =
     (case milestone row of
        None \<Rightarrow> (Inr None, cache, tr)
      | Some m \<Rightarrow>
          if m = [] then (Inr None, cache, tr)
          else
            (case (case cache of
                     Some c \<Rightarrow> (Inr c, tr)
                   | None \<Rightarrow> get_milestones_map E owner repo_name tr) of
               (Inl e, tr1) \<Rightarrow> (Inl e, cache, tr1)
             | (Inr c, tr1) \<Rightarrow>
                 (let key = py_lower m in
                  case map_of c key of
                    Some n \<Rightarrow> (Inr (Some n), Some c, tr1)
                  | None \<Rightarrow>
                      if arg_no_milestone_create A
                      then (Inr None, Some c,
                            tr1 @ [Printed (InfoMilestoneMissing m (title row))])
                      else
                        (case ensure_milestone E owner repo_name m (arg_dry_run A) tr1 of
                           (Inl e, tr2) \<Rightarrow> (Inl e, Some c, tr2)
                         | (Inr msn, tr2) \<Rightarrow>
                             if msn > 0
                             then (Inr (Some msn), Some (AList.update key msn c), tr2)
                             else (Inr None, Some c, tr2)))))"

text \<open>The two steps after the creation: the project board, and the closing.\<close>

definition attach_step :: "env \<Rightarrow> args \<Rightarrow> issue_row \<Rightarrow> string \<Rightarrow> unit io" where
  "attach_step E A row url tr =
     (case (project_owner row, project_number row) of
        (Some po, Some pn) \<Rightarrow>
          if po \<noteq> [] \<and> pn \<noteq> 0
          then add_issue_to_project_v2 E po pn url (arg_dry_run A) tr
          else (Inr (), tr)
      | _ \<Rightarrow> (Inr (), tr))"

definition close_step :: "env \<Rightarrow> args \<Rightarrow> string \<Rightarrow> issue_row \<Rightarrow> string \<Rightarrow> unit io" where
  "close_step E A repo_full row url tr =
     (if state row = ''closed''
      then close_issue E url repo_full (close_reason row) (arg_dry_run A) tr
      else (Inr (), tr))"

text \<open>
  The body of the \<open>try\<close> of a row up to \<open>created.append\<close>: the entry to append, or
  the exception.
\<close>

definition row_body ::
  "env \<Rightarrow> args \<Rightarrow> string \<Rightarrow> string \<Rightarrow> string \<Rightarrow> nat \<Rightarrow> issue_row \<Rightarrow> ms_map option
     \<Rightarrow> event list \<Rightarrow> (exn + nat \<times> string \<times> string) \<times> ms_map option \<times> event list" where
  "row_body E A owner repo_name repo_full idx row cache tr =
     (case resolve_milestone E A owner repo_name row cache tr of
        (Inl e, cache1, tr1) \<Rightarrow> (Inl e, cache1, tr1)
      | (Inr milestone_number, cache1, tr1) \<Rightarrow>
          (case create_issue_with_retry E owner repo_name row milestone_number (arg_dry_run A)
                  (max 1 (arg_retries A)) (py_max (Fin 0.1) (arg_retry_base_delay A)) tr1 of
             (Inl e, tr2) \<Rightarrow> (Inl e, cache1, tr2)
           | (Inr (number, url0), tr2) \<Rightarrow>
               (let url = (if arg_dry_run A
                           then ''https://github.com/'' @ owner @ ''/'' @ repo_name
                                  @ ''/issues/<new>''
                           else url0)
                in case attach_step E A row url tr2 of
                     (Inl e, tr3) \<Rightarrow> (Inl e, cache1, tr3)
                   | (Inr _, tr3) \<Rightarrow>
                       (case close_step E A repo_full row url tr3 of
                          (Inl e, tr4) \<Rightarrow> (Inl e, cache1, tr4)
                        | (Inr _, tr4) \<Rightarrow>
                            (Inr (idx, str_of_int number, url), cache1, tr4)))))"

text \<open>The last statement of the \<open>try\<close>, after \<open>created.append\<close>: the pause between rows.\<close>

definition delay_step :: "env \<Rightarrow> args \<Rightarrow> unit io" where
  "delay_step E A tr =
     (if float_gt (arg_delay A) (Fin 0) \<and> \<not> arg_dry_run A then py_sleep E (arg_delay A) tr
      else (Inr (), tr))"

text \<open>
  What the loop of \<open>main\<close> carries from row to row: the milestone cache, \<open>created\<close>
  and \<open>errors\<close>.
\<close>

type_synonym run_state = "ms_map option \<times> (nat \<times> string \<times> string) list \<times> string list"

definition row_message :: "nat \<Rightarrow> issue_row \<Rightarrow> exn \<Rightarrow> string" where
  "row_message idx row e =
     ''Row '' @ dec_nat idx @ '' ('' @ sq @ title row @ sq @ '') failed: '' @ exn_str e"

text \<open>
  One iteration of the loop: the \<open>try\<close> with its \<open>except Exception\<close>. When the pause
  raises, the entry of the row is in \<open>created\<close> already.
\<close>

definition main_row ::
  "env \<Rightarrow> args \<Rightarrow> string \<Rightarrow> string \<Rightarrow> string \<Rightarrow> nat \<Rightarrow> issue_row \<Rightarrow> run_state \<Rightarrow> run_state io" where
  "main_row E A owner repo_name repo_full idx row st tr =
     (case st of (cache, created, errors) \<Rightarrow>
        (case row_body E A owner repo_name repo_full idx row cache tr of
           (Inr c, cache1, tr1) \<Rightarrow>
             (case delay_step E A tr1 of
                (Inr _, tr2) \<Rightarrow> (Inr (cache1, created @ [c], errors), tr2)
              | (Inl e, tr2) \<Rightarrow>
                  if is_Exception e
                  then (Inr (cache1, created @ [c], errors @ [row_message idx row e]),
                        tr2 @ [Printed (RowError (row_message idx row e))])
                  else (Inl e, tr2))
         | (Inl e, cache1, tr1) \<Rightarrow>
             if is_Exception e
             then (Inr (cache1, created, errors @ [row_message idx row e]),
                   tr1 @ [Printed (RowError (row_message idx row e))])
             else (Inl e, tr1)))"

fun main_loop ::
  "env \<Rightarrow> args \<Rightarrow> string \<Rightarrow> string \<Rightarrow> string \<Rightarrow> nat \<Rightarrow> issue_row list \<Rightarrow> run_state \<Rightarrow> run_state io" where
  "main_loop E A owner repo_name repo_full idx [] st tr = (Inr st, tr)"
| "main_loop E A owner repo_name repo_full idx (row # rest) st tr =
     (case main_row E A owner repo_name repo_full idx row st tr of
        (Inl e, tr1) \<Rightarrow> (Inl e, tr1)
      | (Inr st1, tr1) \<Rightarrow> main_loop E A owner repo_name repo_full (Suc idx) rest st1 tr1)"

text \<open>The label step of \<open>main\<close>: the labels of all rows, sorted, without repetition.\<close>

definition label_step :: "env \<Rightarrow> args \<Rightarrow> string \<Rightarrow> issue_row list \<Rightarrow> unit io" where
  "label_step E A repo_full rows tr =
     (if \<not> arg_no_label_create A
      then ensure_labels E repo_full (sort (remdups (concat (map labels rows))))
             (arg_dry_run A) tr
      else (Inr (), tr))"

text \<open>\<open>main\<close> from the label step on, with the rows read and the repository known.\<close>

definition import_rows ::
  "env \<Rightarrow> args \<Rightarrow> string \<Rightarrow> string \<Rightarrow> string \<Rightarrow> issue_row list \<Rightarrow> run_state io" where
  "import_rows E A owner repo_name repo_full rows tr =
     (case label_step E A repo_full rows tr of
        (Inl e, tr1) \<Rightarrow> (Inl e, tr1)
      | (Inr _, tr1) \<Rightarrow> main_loop E A owner repo_name repo_full 1 rows (None, [], []) tr1)"

text \<open>
  \<open>main\<close>. The second argument is what stands at the path \<open>--csv\<close>: \<open>None\<close> when
  there is no such file, the dicts of its data lines otherwise. The result is the
  return value, or the exception that leaves \<open>main\<close>.
\<close>

definition main :: "env \<Rightarrow> args \<Rightarrow> raw_row list option \<Rightarrow> int io" where
  "main E A csv_file tr =
     (case csv_file of
        None \<Rightarrow> (Inr 2, tr @ [Printed (CsvNotFound (arg_csv A))])
      | Some raws \<Rightarrow>
          (case ensure_repo_name_with_owner E (arg_repo A) tr of
             (Inl e, tr1) \<Rightarrow> (Inl e, tr1)
           | (Inr (JStr repo_full), tr1) \<Rightarrow>
               (case py_split1 (CHR ''/'') repo_full of
                  [owner, repo_name] \<Rightarrow>
                    (case read_csv raws tr1 of
                       (Inl e, tr2) \<Rightarrow> (Inl e, tr2)
                     | (Inr rows, tr2) \<Rightarrow>
                         if rows = [] then (Inr 0, tr2 @ [Printed NoRows])
                         else
                           (case import_rows E A owner repo_name repo_full rows tr2 of
                              (Inl e, tr3) \<Rightarrow> (Inl e, tr3)
                            | (Inr (cache, created, errors), tr3) \<Rightarrow>
                                (Inr (if errors \<noteq> [] then 1 else 0),
                                 tr3 @ [Printed (Summary created errors)])))
                | _ \<Rightarrow>
                    (Inl (ValueError ''not enough values to unpack (expected 2, got 1)''), tr1))
           | (Inr v, tr1) \<Rightarrow>
               (Inl (AttributeError
                  (sq @ type_name v @ sq @ '' object has no attribute '' @ sq @ ''split'' @ sq)),
                tr1)))"

text \<open>
  The script: \<open>sys.exit(main())\<close>, with 130 on KeyboardInterrupt. An exception that
  nothing catches ends the interpreter with status 1.
\<close>

definition script :: "env \<Rightarrow> args \<Rightarrow> raw_row list option \<Rightarrow> event list \<Rightarrow> int \<times> event list" where
  "script E A csv_file tr =
     (case main E A csv_file tr of
        (Inr code, tr1) \<Rightarrow> (code, tr1)
      | (Inl e, tr1) \<Rightarrow>
          if e = KeyboardInterrupt then (130, tr1 @ [Printed Aborted]) else (1, tr1))"

section \<open>Traces and example environments\<close>

text \<open>
  Functions that read a trace, the command lines by name, and concrete environments
  for the examples. \<open>table_loads docs\<close> decodes the texts that
  \<open>json.dumps\<close> writes for the documents of \<open>docs\<close> and rejects every other text; the
  examples give it only such texts and texts that are no JSON document at all.

  \<open>scripted rules docs\<close> answers a command by the first rule whose key is a prefix of
  the command line: the rule's \<open>k\<close>-th response to the \<open>k\<close>-th such call. A call that
  no rule or response covers succeeds with empty output. A command line with the
  character NUL in an argument is not started.

  \<open>clock_nap\<close> is \<open>time.sleep\<close> of CPython 3.11 on Linux, where the clock counts
  nanoseconds in 64 bits, when nobody interrupts it. Just below the end of that range
  the rounding and the operating system decide; the examples stay away from it.
\<close>

definition clock_nap :: "pyfloat \<Rightarrow> exn option" where
  "clock_nap secs =
     (case secs of
        NaN \<Rightarrow> Some (ValueError ''Invalid value NaN (not a number)'')
      | PInf \<Rightarrow> Some (OverflowError ''timestamp out of range for platform time_t'')
      | NInf \<Rightarrow> Some (OverflowError ''timestamp out of range for platform time_t'')
      | Fin x \<Rightarrow>
          if 2 ^ 63 \<le> \<bar>x\<bar> * 10 ^ 9
          then Some (OverflowError ''timestamp out of range for platform time_t'')
          else if x < 0 then Some (ValueError ''sleep length must be non-negative'')
          else None)"

definition table_loads :: "json list \<Rightarrow> string \<Rightarrow> string + json" where
  "table_loads docs s =
     (case find (\<lambda>v. json_dumps v = s) docs of
        Some v \<Rightarrow> Inr v
      | None \<Rightarrow> Inl ''Expecting value: line 1 column 1 (char 0)'')"

definition calls_of :: "string list \<Rightarrow> event list \<Rightarrow> nat" where
  "calls_of pre tr =
     length (filter (\<lambda>e. case e of Ran c _ \<Rightarrow> take (length pre) c = pre | _ \<Rightarrow> False) tr)"

definition scripted :: "(string list \<times> response list) list \<Rightarrow> json list \<Rightarrow> env" where
  "scripted rules docs =
     \<lparr> respond = (\<lambda>tr cmd inp.
          if list_ex (\<lambda>a. CHR 0x00 \<in> set a) cmd
          then Failed (ValueError ''embedded null byte'')
          else
            (case find (\<lambda>(pre, rs). take (length pre) cmd = pre) rules of
               None \<Rightarrow> Completed 0 [] []
             | Some (pre, rs) \<Rightarrow>
                 (if calls_of pre tr < length rs then rs ! calls_of pre tr
                  else Completed 0 [] []))),
       nap = (\<lambda>tr secs. clock_nap secs),
       loads = table_loads docs \<rparr>"

text \<open>A file of one data line whose state cell is neither \<open>open\<close> nor \<open>closed\<close>.\<close>

definition csv_done :: "raw_row list" where
  "csv_done = [[(Some ''Title'', CStr ''T''), (Some ''State'', CStr '' Done '')]]"

text \<open>Reading a trace: the sleep times, and the attempts to create an issue.\<close>

definition sleeps :: "event list \<Rightarrow> pyfloat list" where
  "sleeps tr = concat (map (\<lambda>e. case e of Slept d \<Rightarrow> [d] | _ \<Rightarrow> []) tr)"

text \<open>
  Only \<open>create_issue_via_api\<close> gives a command bytes on standard input, and only it
  prints the request it would post: each of its calls leaves exactly one such event.
\<close>

definition is_attempt :: "event \<Rightarrow> bool" where
  "is_attempt e =
     (case e of
        Ran cmd inp \<Rightarrow> inp \<noteq> None
      | Printed m \<Rightarrow> (case m of DryRunPost _ _ \<Rightarrow> True | _ \<Rightarrow> False)
      | Slept _ \<Rightarrow> False)"

definition attempts :: "event list \<Rightarrow> nat" where
  "attempts tr = length (filter is_attempt tr)"

text \<open>An issue as the API returns it, and a row to create.\<close>

definition issue7 :: json where
  "issue7 = JDict [(''number'', JInt 7), (''html_url'', JStr ''https://github.com/o/r/issues/7'')]"

definition row_t :: issue_row where
  "row_t = \<lparr> title = ''T'', body = [], labels = [''bug''], assignees = [], milestone = None,
             project_owner = None, project_number = None, state = ''closed'',
             close_reason = None \<rparr>"

text \<open>The creation fails twice with a transient error and succeeds at the third call.\<close>

definition env_retry :: env where
  "env_retry =
     scripted
       [([''gh'', ''api'', ''-X'', ''POST'', ''repos/o/r/issues''],
         [Completed 1 [] ''API rate limit exceeded'', Completed 1 [] ''HTTP 502'',
          Completed 0 (json_dumps issue7) []])]
       [issue7]"

text \<open>The creation fails with an error that is not transient.\<close>

definition env_invalid :: env where
  "env_invalid =
     scripted
       [([''gh'', ''api'', ''-X'', ''POST'', ''repos/o/r/issues''],
         [Completed 1 [] ''HTTP 422: Validation Failed''])]
       [issue7]"

text \<open>The call that posts \<open>row_t\<close>, and the exception when it fails with \<open>err\<close>.\<close>

definition post_t :: event where
  "post_t =
     Ran [''gh'', ''api'', ''-X'', ''POST'', ''repos/o/r/issues'', ''--input'', ''-'']
       (Some (json_dumps (issue_payload row_t None)))"

definition failure_t :: "string \<Rightarrow> exn" where
  "failure_t err =
     RuntimeError (''Issue creation failed for '' @ sq @ ''T'' @ sq @ '': '' @ err @ nl
       @ ''Request: '' @ json_dumps (issue_payload row_t None))"

text \<open>The arguments of a run on the repository \<open>o/r\<close>, and a file of one row with a label.\<close>

definition args0 :: args where
  "args0 = \<lparr> arg_csv = ''issues.csv'', arg_repo = Some ''o/r'', arg_delay = Fin 0,
             arg_dry_run = False, arg_no_label_create = False, arg_no_milestone_create = False,
             arg_retries = 3, arg_retry_base_delay = Fin 1, arg_no_progress = True \<rparr>"

definition csv_bug :: "raw_row list" where
  "csv_bug = [[(Some ''title'', CStr ''T''), (Some ''labels'', CStr ''bug'')]]"

definition label_list_cmd :: "string \<Rightarrow> string list" where
  "label_list_cmd repo = [''gh'', ''label'', ''list'', ''--json'', ''name'', ''-R'', repo]"

text \<open>The label list fails; the label list answers with a JSON object, not a list.\<close>

definition env_label_list_fails :: env where
  "env_label_list_fails =
     scripted [([''gh'', ''label'', ''list''], [Completed 1 [] ''HTTP 401: Bad credentials''])] []"

definition not_found :: json where
  "not_found = JDict [(''message'', JStr ''Not Found'')]"

definition env_label_list_dict :: env where
  "env_label_list_dict =
     scripted [([''gh'', ''label'', ''list''], [Completed 0 (json_dumps not_found) []])] [not_found]"

text \<open>
  Two pages of a milestone list. The list call answers with both pages, written one
  after the other on one line, or on a line each.
\<close>

definition page1 :: json where
  "page1 = JList [JDict [(''title'', JStr ''v1''), (''number'', JInt 1)]]"

definition page2 :: json where
  "page2 = JList [JDict [(''title'', JStr ''V2''), (''number'', JInt 2)]]"

definition milestones_cmd :: "string list" where
  "milestones_cmd = [''gh'', ''api'', ''--paginate'', ''repos/o/r/milestones'']"

definition env_pages_concat :: env where
  "env_pages_concat =
     scripted [([''gh'', ''api'', ''--paginate''],
                [Completed 0 (json_dumps page1 @ json_dumps page2) []])]
       [page1, page2]"

definition env_pages_lines :: env where
  "env_pages_lines =
     scripted [([''gh'', ''api'', ''--paginate''],
                [Completed 0 (json_dumps page1 @ nl @ json_dumps page2) []])]
       [page1, page2]"

text \<open>
  A dry run, a row with the milestone \<open>V9\<close>, and a milestone list that holds \<open>v1\<close>
  only.
\<close>

definition args_dry :: args where
  "args_dry = args0 \<lparr> arg_dry_run := True \<rparr>"

definition row_m :: issue_row where
  "row_m = row_t \<lparr> milestone := Some ''V9'' \<rparr>"

definition env_one_page :: env where
  "env_one_page =
     scripted [([''gh'', ''api'', ''--paginate''], [Completed 0 (json_dumps page1) [],
                 Completed 0 (json_dumps page1) []])]
       [page1]"

text \<open>The command lines that create a label and post an issue.\<close>

definition label_create_cmd :: "string \<Rightarrow> string \<Rightarrow> string list" where
  "label_create_cmd label repo = [''gh'', ''label'', ''create'', label, ''-R'', repo]"

definition issue_post_cmd :: "string \<Rightarrow> string \<Rightarrow> string list" where
  "issue_post_cmd owner repo_name =
     [''gh'', ''api'', ''-X'', ''POST'', ''repos/'' @ owner @ ''/'' @ repo_name @ ''/issues'',
      ''--input'', ''-'']"

text \<open>
  No label exists and the creation of a label fails, or is interrupted by the user; the
  creation of the issue succeeds.
\<close>

definition env_label_create_fails :: env where
  "env_label_create_fails =
     scripted
       [([''gh'', ''label'', ''list''], [Completed 0 (json_dumps (JList [])) []]),
        ([''gh'', ''label'', ''create''], [Completed 1 [] ''HTTP 403: Forbidden'']),
        ([''gh'', ''api'', ''-X'', ''POST'', ''repos/o/r/issues''],
         [Completed 0 (json_dumps issue7) []])]
       [JList [], issue7]"

definition env_label_create_interrupted :: env where
  "env_label_create_interrupted = scripted [([''gh'', ''label'', ''create''], [Interrupted])] []"

text \<open>The command line that closes an issue.\<close>

definition close_cmd :: "string \<Rightarrow> string \<Rightarrow> string option \<Rightarrow> string list" where
  "close_cmd url repo reason =
     [''gh'', ''issue'', ''close'', url, ''-R'', repo]
       @ (case reason of None \<Rightarrow> [] | Some r \<Rightarrow> if r \<noteq> [] then [''--reason'', r] else [])"

text \<open>
  A file of one row that is to be closed. The issue is created and the call that closes
  it fails.
\<close>

definition csv_closed :: "raw_row list" where
  "csv_closed = [[(Some ''title'', CStr ''T''), (Some ''labels'', CStr ''bug''),
                  (Some ''state'', CStr ''closed'')]]"

definition env_close_fails :: env where
  "env_close_fails =
     scripted
       [([''gh'', ''label'', ''list''], [Completed 0 (json_dumps (JList [])) []]),
        ([''gh'', ''api'', ''-X'', ''POST'', ''repos/o/r/issues''],
         [Completed 0 (json_dumps issue7) []]),
        ([''gh'', ''issue'', ''close''], [Completed 1 [] ''HTTP 500''])]
       [JList [], issue7]"

text \<open>The exception of \<open>close_issue\<close>, and the address of the issue of the examples.\<close>

definition close_failure :: "string \<Rightarrow> string \<Rightarrow> exn" where
  "close_failure url err = RuntimeError (''Failed to close issue '' @ url @ '': '' @ err)"

definition url7 :: string where
  "url7 = ''https://github.com/o/r/issues/7''"





text \<open>A run with \<open>--retry-base-delay 1e10 --no-label-create\<close>.\<close>

definition args_slow :: args where
  "args_slow = args0 \<lparr> arg_no_label_create := True, arg_retry_base_delay := Fin 10000000000 \<rparr>"

text \<open>A run with \<open>--retries 0 --retry-base-delay 0\<close>, and a milestone list that fails.\<close>

definition args_zero :: args where
  "args_zero = args0 \<lparr> arg_retries := 0, arg_retry_base_delay := Fin 0 \<rparr>"

definition env_milestone_list_fails :: env where
  "env_milestone_list_fails =
     scripted [([''gh'', ''api'', ''--paginate''], [Completed 1 [] ''HTTP 502''])] []"

text \<open>
  The command lines that change something in the repository: they create a label, post
  to the API (a milestone or an issue), add an item to a project, or close an issue.
  The command lines that only read: the repository view, the label list and the
  paginated GET of the milestones. A trace has no mutation when every command in it is
  of the second kind and not of the first.
\<close>

definition mutating :: "string list \<Rightarrow> bool" where
  "mutating cmd =
     (take 3 cmd = [''gh'', ''label'', ''create'']
      \<or> take 4 cmd = [''gh'', ''api'', ''-X'', ''POST'']
      \<or> take 3 cmd = [''gh'', ''project'', ''item-add'']
      \<or> take 3 cmd = [''gh'', ''issue'', ''close''])"

definition read_only :: "string list \<Rightarrow> bool" where
  "read_only cmd =
     (take 3 cmd = [''gh'', ''repo'', ''view'']
      \<or> take 3 cmd = [''gh'', ''label'', ''list'']
      \<or> take 3 cmd = [''gh'', ''api'', ''--paginate''])"

definition quiet :: "event \<Rightarrow> bool" where
  "quiet e = (case e of Ran cmd inp \<Rightarrow> read_only cmd \<and> \<not> mutating cmd | _ \<Rightarrow> True)"

definition no_mutation :: "event list \<Rightarrow> bool" where
  "no_mutation tr = list_all quiet tr"

text \<open>
  A row that uses every step: a label, a milestone, a project and the closing. The
  label list is empty and the milestone list holds \<open>v1\<close> only.
\<close>

definition csv_full :: "raw_row list" where
  "csv_full = [[(Some ''title'', CStr ''T''), (Some ''labels'', CStr ''bug''),
                (Some ''milestone'', CStr ''V9''), (Some ''project_owner'', CStr ''acme''),
                (Some ''project_number'', CStr ''3''), (Some ''state'', CStr ''closed''),
                (Some ''close_reason'', CStr ''completed'')]]"

definition env_dry :: env where
  "env_dry =
     scripted
       [([''gh'', ''label'', ''list''], [Completed 0 (json_dumps (JList [])) []]),
        ([''gh'', ''api'', ''--paginate''],
         [Completed 0 (json_dumps page1) [], Completed 0 (json_dumps page1) []])]
       [JList [], page1]"

text \<open>The address that a dry run makes up for the issue.\<close>

definition url_new :: string where
  "url_new = ''https://github.com/o/r/issues/<new>''"

section \<open>Properties\<close>

subsection \<open>The rows of the parser\<close>

text \<open>
  C9, as the code has it. Every row that \<open>read_csv\<close> yields has a non-empty title, and
  its state is the lower-cased content of the state column of its line, \<open>open\<close> when
  that cell is empty or missing. Nothing restricts the state to \<open>open\<close> and \<open>closed\<close>.
\<close>

theorem read_csv_row_invariant:
  assumes "read_csv raws tr = (Inr rows, tr')" and "r \<in> set rows"
  shows "title r \<noteq> [] \<and>
     (\<exists>raw nrm. raw \<in> set raws \<and> normalize_keys raw [] = Inr nrm \<and>
        title r = get_or_empty nrm ''title'' \<and>
        state r = py_lower (case get_or_none nrm ''state'' of None \<Rightarrow> ''open'' | Some v \<Rightarrow> v))"
proof -
  have "read_csv_from i raws tr = (Inr rows, tr') \<Longrightarrow> r \<in> set rows \<Longrightarrow>
     title r \<noteq> [] \<and>
     (\<exists>raw nrm. raw \<in> set raws \<and> normalize_keys raw [] = Inr nrm \<and>
        title r = get_or_empty nrm ''title'' \<and>
        state r = py_lower (case get_or_none nrm ''state'' of None \<Rightarrow> ''open'' | Some v \<Rightarrow> v))"
    for i
  proof (induction raws arbitrary: i tr rows tr')
    case Nil
    then show ?case by simp
  next
    case (Cons raw rest)
    show ?case
    proof (cases "raw = []")
      case True
      with Cons.prems have "read_csv_from (Suc i) rest tr = (Inr rows, tr')" by simp
      from Cons.IH[OF this Cons.prems(2)] show ?thesis by auto
    next
      case False
      then obtain nrm where n: "normalize_keys raw [] = Inr nrm"
        using Cons.prems(1) by (auto split: sum.splits)
      show ?thesis
      proof (cases "get_or_empty nrm ''title'' = []")
        case True
        with Cons.prems False n
        have "read_csv_from (Suc i) rest (tr @ [Printed (SkipRow i)]) = (Inr rows, tr')"
          by simp
        from Cons.IH[OF this Cons.prems(2)] show ?thesis by auto
      next
        case nonempty: False
        from Cons.prems(1) False n nonempty obtain pnum rows1 where
          rec: "read_csv_from (Suc i) rest tr = (Inr rows1, tr')" and
          rows: "rows = \<lparr> title = get_or_empty nrm ''title'',
                          body = get_or_empty nrm ''body'',
                          labels = split_list (get_or_empty nrm ''labels''),
                          assignees = split_list (get_or_empty nrm ''assignees''),
                          milestone = get_or_none nrm ''milestone'',
                          project_owner = get_or_none nrm ''project_owner'',
                          project_number = pnum,
                          state = py_lower (case get_or_none nrm ''state'' of
                                              None \<Rightarrow> ''open''
                                            | Some v \<Rightarrow> v),
                          close_reason = get_or_none nrm ''close_reason'' \<rparr> # rows1"
          by (auto split: sum.splits prod.splits)
        from Cons.prems(2) rows consider (first) "r = hd rows" | (later) "r \<in> set rows1"
          by auto
        then show ?thesis
        proof cases
          case first
          with rows nonempty n show ?thesis by auto
        next
          case later
          from Cons.IH[OF rec later] show ?thesis by auto
        qed
      qed
    qed
  qed
  with assms show ?thesis by (simp add: read_csv_def)
qed

text \<open>
  The line \<open>Title = T, State = Done\<close> is read as a row, and the state of that row is
  \<open>done\<close>.
\<close>

theorem read_csv_state_counterexample:
  "read_csv csv_done [] =
     (Inr [\<lparr> title = ''T'', body = [], labels = [], assignees = [], milestone = None,
             project_owner = None, project_number = None, state = ''done'',
             close_reason = None \<rparr>], [])"
  by code_simp

theorem read_csv_row_invariant_witness:
  "read_csv csv_done [] =
     (Inr [\<lparr> title = ''T'', body = [], labels = [], assignees = [], milestone = None,
             project_owner = None, project_number = None, state = ''done'',
             close_reason = None \<rparr>], [])
   \<and> title \<lparr> title = ''T'', body = [], labels = [], assignees = [], milestone = None,
             project_owner = None, project_number = None, state = ''done'',
             close_reason = None \<rparr> \<noteq> []
   \<and> (\<exists>raw nrm. raw \<in> set csv_done \<and> normalize_keys raw [] = Inr nrm \<and>
         ''T'' = get_or_empty nrm ''title'' \<and>
         ''done'' = py_lower (case get_or_none nrm ''state'' of None \<Rightarrow> ''open'' | Some v \<Rightarrow> v))"
proof -
  have run: "read_csv csv_done [] =
     (Inr [\<lparr> title = ''T'', body = [], labels = [], assignees = [], milestone = None,
             project_owner = None, project_number = None, state = ''done'',
             close_reason = None \<rparr>], [])"
    by code_simp
  from read_csv_row_invariant [OF run, of "\<lparr> title = ''T'', body = [], labels = [],
      assignees = [], milestone = None, project_owner = None, project_number = None,
      state = ''done'', close_reason = None \<rparr>"]
  show ?thesis using run by simp
qed

subsection \<open>The retry policy\<close>

lemma sleeps_append: "sleeps (a @ b) = sleeps a @ sleeps b"
  by (simp add: sleeps_def)

lemma attempts_append: "attempts (a @ b) = attempts a + attempts b"
  by (simp add: attempts_def)

lemma starts_with_iff: "starts_with s p \<longleftrightarrow> (\<exists>ss. s = p @ ss)"
  by (induction s p rule: starts_with.induct) auto

lemma py_in_iff: "py_in tok s \<longleftrightarrow> (\<exists>ps ss. s = ps @ tok @ ss)"
proof (induction s)
  case Nil
  then show ?case by auto
next
  case (Cons c cs)
  show ?case
  proof
    assume "py_in tok (c # cs)"
    then consider "starts_with (c # cs) tok" | "py_in tok cs" by auto
    then show "\<exists>ps ss. c # cs = ps @ tok @ ss"
    proof cases
      case 1
      then obtain ss where "c # cs = tok @ ss" by (auto simp: starts_with_iff)
      then have "c # cs = [] @ tok @ ss" by simp
      then show ?thesis by blast
    next
      case 2
      with Cons.IH obtain ps ss where "cs = ps @ tok @ ss" by auto
      then have "c # cs = (c # ps) @ tok @ ss" by simp
      then show ?thesis by blast
    qed
  next
    assume "\<exists>ps ss. c # cs = ps @ tok @ ss"
    then obtain ps ss where eq: "c # cs = ps @ tok @ ss" by auto
    show "py_in tok (c # cs)"
    proof (cases ps)
      case Nil
      with eq have "starts_with (c # cs) tok" by (auto simp: starts_with_iff)
      then show ?thesis by simp
    next
      case (Cons p ps')
      with eq have "cs = ps' @ tok @ ss" by simp
      with Cons.IH have "py_in tok cs" by blast
      then show ?thesis by simp
    qed
  qed
qed

lemma transient_iff:
  "transient e \<longleftrightarrow>
     (\<exists>tok ps ss. tok \<in> set transient_tokens \<and> py_lower (exn_str e) = ps @ tok @ ss)"
  unfolding transient_def list_ex_iff py_in_iff by blast

lemma run_trace: "run E cmd inp tr = (r, tr') \<Longrightarrow> tr' = tr @ [Ran cmd inp]"
  by (auto simp: run_def split: response.splits)

lemma create_issue_via_api_trace:
  assumes "create_issue_via_api E ow rn row ms dry tr = (r, tr')"
  shows "\<exists>ev. tr' = tr @ [ev] \<and> is_attempt ev \<and> sleeps [ev] = []"
proof (cases dry)
  case True
  with assms show ?thesis
    by (auto simp: create_issue_via_api_def Let_def is_attempt_def sleeps_def)
next
  case False
  obtain r1 tr1 where r: "run E [''gh'', ''api'', ''-X'', ''POST'',
      ''repos/'' @ ow @ ''/'' @ rn @ ''/issues'', ''--input'', ''-'']
      (Some (json_dumps (issue_payload row ms))) tr = (r1, tr1)"
    by (cases "run E [''gh'', ''api'', ''-X'', ''POST'',
      ''repos/'' @ ow @ ''/'' @ rn @ ''/issues'', ''--input'', ''-'']
      (Some (json_dumps (issue_payload row ms))) tr") auto
  from run_trace[OF r] have t1: "tr1 = tr @ [Ran [''gh'', ''api'', ''-X'', ''POST'',
      ''repos/'' @ ow @ ''/'' @ rn @ ''/issues'', ''--input'', ''-'']
      (Some (json_dumps (issue_payload row ms)))]" .
  from assms False r have "tr' = tr1"
    by (auto simp: create_issue_via_api_def Let_def split: sum.splits prod.splits if_splits)
  with t1 show ?thesis by (auto simp: is_attempt_def sleeps_def)
qed

lemma backoff_value:
  "0 \<le> a \<Longrightarrow> backoff d (a + 1) = Inr s \<Longrightarrow> s = float_scale d (nat a)"
  by (auto simp: backoff_def split: if_splits)

lemma float_scale_finite:
  "\<bar>x\<bar> * 2 ^ k < 2 ^ 1024 \<Longrightarrow> float_scale (Fin x) k = Fin (x * 2 ^ k)"
  by (simp add: float_scale_def)

lemma py_sleep_returns:
  "nap E tr s = None \<Longrightarrow> py_sleep E s tr = (Inr (), tr @ [Slept s])"
  by (simp add: py_sleep_def)

lemma py_sleep_raises:
  "nap E tr s = Some e \<Longrightarrow> py_sleep E s tr = (Inl e, tr)"
  by (simp add: py_sleep_def)

text \<open>One iteration of the retry loop that ends in the \<open>except\<close> block, case by case.\<close>

lemma retry_step_again:
  assumes "create_issue_via_api E ow rn row ms False tr = (Inl e, tr1)"
    and "is_Exception e" and "transient e" and "a + 1 < n"
    and "backoff d (a + 1) = Inr s"
    and "nap E (tr1 @ [Printed (RetryNote (a + 1) n (exn_str e) s)]) s = None"
  shows "create_issue_with_retry_from E ow rn row ms False n d a tr =
     create_issue_with_retry_from E ow rn row ms False n d (a + 1)
       (tr1 @ [Printed (RetryNote (a + 1) n (exn_str e) s), Slept s])"
  using assms py_sleep_returns[OF assms(6)]
  by (subst create_issue_with_retry_from.simps) (simp add: Let_def)

lemma retry_step_sleep_raises:
  assumes "create_issue_via_api E ow rn row ms False tr = (Inl e, tr1)"
    and "is_Exception e" and "transient e" and "a + 1 < n"
    and "backoff d (a + 1) = Inr s"
    and "nap E (tr1 @ [Printed (RetryNote (a + 1) n (exn_str e) s)]) s = Some e'"
  shows "create_issue_with_retry_from E ow rn row ms False n d a tr =
     (Inl e', tr1 @ [Printed (RetryNote (a + 1) n (exn_str e) s)])"
  using assms py_sleep_raises[OF assms(6)]
  by (subst create_issue_with_retry_from.simps) (simp add: Let_def)

lemma retry_step_backoff_raises:
  assumes "create_issue_via_api E ow rn row ms False tr = (Inl e, tr1)"
    and "is_Exception e" and "transient e" and "a + 1 < n"
    and "backoff d (a + 1) = Inl e'"
  shows "create_issue_with_retry_from E ow rn row ms False n d a tr = (Inl e', tr1)"
  using assms
  by (subst create_issue_with_retry_from.simps) (simp add: Let_def)

lemma retry_from_trace:
  "0 \<le> a \<Longrightarrow>
   \<exists>k delta. snd (create_issue_with_retry_from E ow rn row ms dry n d a tr) = tr @ delta
      \<and> sleeps delta = map (\<lambda>i. float_scale d (nat a + i)) [0..<k]
      \<and> attempts delta = Suc k
      \<and> (a < n \<longrightarrow> a + int k < n) \<and> (n \<le> a \<longrightarrow> k = 0) \<and> (dry \<longrightarrow> k = 0)"
proof (induction E ow rn row ms dry n d a tr rule: create_issue_with_retry_from.induct)
  case (1 E ow rn row ms dry n d a tr)
  obtain r tr1 where api: "create_issue_via_api E ow rn row ms dry tr = (r, tr1)"
    by (cases "create_issue_via_api E ow rn row ms dry tr") auto
  from create_issue_via_api_trace[OF api] obtain ev where
    ev: "tr1 = tr @ [ev]" "is_attempt ev" "sleeps [ev] = []" by auto
  have att1: "attempts [ev] = 1" using ev(2) by (simp add: attempts_def)
  let ?f = "create_issue_with_retry_from E ow rn row ms dry n d a tr"
  have stop: ?case if "snd ?f = tr @ [ev]"
  proof -
    from that ev att1 have "snd ?f = tr @ [ev]
      \<and> sleeps [ev] = map (\<lambda>i. float_scale d (nat a + i)) [0..<0]
      \<and> attempts [ev] = Suc 0
      \<and> (a < n \<longrightarrow> a + int 0 < n) \<and> (n \<le> a \<longrightarrow> (0::nat) = 0) \<and> (dry \<longrightarrow> (0::nat) = 0)"
      by simp
    then show ?thesis by blast
  qed
  let ?again = "\<exists>e. r = Inl e \<and> is_Exception e \<and> \<not> (a + 1 \<ge> n \<or> \<not> transient e \<or> dry)"
  show ?case
  proof (cases ?again)
    case False
    with api have "snd ?f = tr1"
      by (subst create_issue_with_retry_from.simps) (auto simp: Let_def split: sum.splits)
    with ev(1) have "snd ?f = tr @ [ev]" by simp
    then show ?thesis by (rule stop)
  next
    case True
    then obtain e where e: "r = Inl e" "is_Exception e" "a + 1 < n" "transient e" "\<not> dry"
      by auto
    from api e have api': "create_issue_via_api E ow rn row ms False tr = (Inl e, tr1)" by simp
    show ?thesis
    proof (cases "backoff d (a + 1)")
      case (Inl e')
      from retry_step_backoff_raises[OF api' e(2) e(4) e(3) Inl] e(5) ev(1)
      have "snd ?f = tr @ [ev]" by simp
      then show ?thesis by (rule stop)
    next
      case (Inr s)
      from backoff_value[OF "1.prems" Inr] have sv: "s = float_scale d (nat a)" .
      let ?note = "Printed (RetryNote (a + 1) n (exn_str e) s)"
      show ?thesis
      proof (cases "nap E (tr1 @ [?note]) s")
        case (Some e')
        from retry_step_sleep_raises[OF api' e(2) e(4) e(3) Inr Some] e(5) ev(1)
        have f: "snd ?f = tr @ [ev, ?note]" by simp
        have "sleeps [ev, ?note] = []" using ev(3) by (simp add: sleeps_def)
        moreover have "attempts [ev, ?note] = 1"
          using ev(2) by (simp add: attempts_def is_attempt_def)
        ultimately have "snd ?f = tr @ [ev, ?note]
          \<and> sleeps [ev, ?note] = map (\<lambda>i. float_scale d (nat a + i)) [0..<0]
          \<and> attempts [ev, ?note] = Suc 0
          \<and> (a < n \<longrightarrow> a + int 0 < n) \<and> (n \<le> a \<longrightarrow> (0::nat) = 0) \<and> (dry \<longrightarrow> (0::nat) = 0)"
          using f e(3) by simp
        then show ?thesis by blast
      next
        case None
        let ?tr2 = "tr1 @ [?note, Slept s]"
        from retry_step_again[OF api' e(2) e(4) e(3) Inr None] e(5)
        have step: "?f = create_issue_with_retry_from E ow rn row ms dry n d (a + 1) ?tr2"
          by simp
        have sl: "(Inr (), ?tr2) = py_sleep E s (tr1 @ [?note])"
          using py_sleep_returns[OF None] by simp
        have "\<exists>k delta. snd (create_issue_with_retry_from E ow rn row ms dry n d (a + 1) ?tr2)
              = ?tr2 @ delta
          \<and> sleeps delta = map (\<lambda>i. float_scale d (nat (a + 1) + i)) [0..<k]
          \<and> attempts delta = Suc k
          \<and> (a + 1 < n \<longrightarrow> a + 1 + int k < n) \<and> (n \<le> a + 1 \<longrightarrow> k = 0) \<and> (dry \<longrightarrow> k = 0)"
          using "1.IH"[OF refl api[symmetric] e(1) _ _ Inr sl refl] e "1.prems" by simp
        then obtain k delta where
          k: "snd (create_issue_with_retry_from E ow rn row ms dry n d (a + 1) ?tr2) = ?tr2 @ delta"
             "sleeps delta = map (\<lambda>i. float_scale d (nat (a + 1) + i)) [0..<k]"
             "attempts delta = Suc k" "a + 1 + int k < n"
          using e by auto
        let ?delta = "[ev, ?note, Slept s] @ delta"
        have nat_a: "nat (a + 1) = Suc (nat a)" using "1.prems" by simp
        have s1: "sleeps ?delta = float_scale d (nat a) # sleeps delta"
          using ev(3) sv by (simp add: sleeps_def)
        have "map (\<lambda>i. float_scale d (nat a + i)) [0..<Suc k]
            = float_scale d (nat a) # map (\<lambda>i. float_scale d (nat (a + 1) + i)) [0..<k]"
          by (simp add: upt_conv_Cons map_Suc_upt[symmetric] nat_a del: upt_Suc)
        with s1 k(2) have s2: "sleeps ?delta = map (\<lambda>i. float_scale d (nat a + i)) [0..<Suc k]"
          by simp
        have a0: "attempts [?note, Slept s] = 0"
          by (simp add: attempts_def is_attempt_def)
        have "attempts ?delta = attempts [ev] + (attempts [?note, Slept s] + attempts delta)"
          unfolding attempts_append[symmetric] by simp
        with att1 a0 k(3) have a2: "attempts ?delta = Suc (Suc k)" by simp
        have "snd ?f = tr @ ?delta"
          using step k(1) ev(1) by simp
        with s2 a2 k(4) e have "snd ?f = tr @ ?delta
          \<and> sleeps ?delta = map (\<lambda>i. float_scale d (nat a + i)) [0..<Suc k]
          \<and> attempts ?delta = Suc (Suc k)
          \<and> (a < n \<longrightarrow> a + int (Suc k) < n) \<and> (n \<le> a \<longrightarrow> Suc k = 0) \<and> (dry \<longrightarrow> Suc k = 0)"
          by auto
        then show ?thesis by blast
      qed
    qed
  qed
qed

lemma backoff_in_range:
  "0 \<le> a \<Longrightarrow> nat a < 1024 \<Longrightarrow> backoff d (a + 1) = Inr (float_scale d (nat a))"
  by (simp add: backoff_def)

lemma backoff_out_of_range:
  "0 \<le> a \<Longrightarrow> 1024 \<le> nat a \<Longrightarrow>
     backoff d (a + 1) = Inl (OverflowError ''int too large to convert to float'')"
  by (simp add: backoff_def)

text \<open>
  C2, as the code has it. \<open>create_issue_with_retry\<close>, for every environment:
  \<^item> a failure is transient iff the lower-cased text of the exception contains one of the
    marker strings of \<open>transient_tokens\<close>;
  \<^item> when attempt number \<open>a + 1\<close> fails with a transient error and \<open>a + 1\<close> is below the
    maximum, the loop computes the delay \<open>d * 2 ** a\<close>, prints the retry line and calls
    \<open>time.sleep\<close> with the delay. When that call returns, the loop has slept the delay
    and goes on with the next attempt. When \<open>time.sleep\<close> raises (it refuses a delay
    beyond the range of the clock), or the conversion of \<open>2 ** a\<close> to a float raises,
    that exception leaves the function and no further attempt is made;
  \<^item> the delay is \<open>x * 2 ^ a\<close> for a finite base \<open>x\<close> as long as that is in the range of
    a float;
  \<^item> an error that is not transient leaves the function at once, with the trace of the
    failed call and no sleep;
  \<^item> over the whole call the sleeps are the delays for \<open>a = 0, ..., k - 1\<close>, for \<open>k + 1\<close>
    attempts; \<open>k + 1\<close> is at most the configured maximum when that is at least 1, as
    the Driver passes it (one attempt is made whatever the maximum is); and in dry-run
    mode \<open>k = 0\<close>.
\<close>

theorem create_issue_with_retry_policy:
  "(transient e \<longleftrightarrow>
      (\<exists>tok ps ss. tok \<in> set transient_tokens \<and> py_lower (exn_str e) = ps @ tok @ ss))
   \<and> (0 \<le> a \<and> create_issue_via_api E ow rn row ms False tr = (Inl e1, tr1)
        \<and> is_Exception e1 \<and> transient e1 \<and> a + 1 < n_retries \<longrightarrow>
      (nat a < 1024
         \<and> nap E (tr1 @ [Printed (RetryNote (a + 1) n_retries (exn_str e1)
                                   (float_scale d (nat a)))])
              (float_scale d (nat a)) = None \<longrightarrow>
       create_issue_with_retry_from E ow rn row ms False n_retries d a tr =
       create_issue_with_retry_from E ow rn row ms False n_retries d (a + 1)
         (tr1 @ [Printed (RetryNote (a + 1) n_retries (exn_str e1) (float_scale d (nat a))),
                 Slept (float_scale d (nat a))]))
      \<and> (nat a < 1024
         \<and> nap E (tr1 @ [Printed (RetryNote (a + 1) n_retries (exn_str e1)
                                   (float_scale d (nat a)))])
              (float_scale d (nat a)) = Some e3 \<longrightarrow>
       create_issue_with_retry_from E ow rn row ms False n_retries d a tr =
         (Inl e3, tr1 @ [Printed (RetryNote (a + 1) n_retries (exn_str e1)
                                    (float_scale d (nat a)))]))
      \<and> (1024 \<le> nat a \<longrightarrow>
       create_issue_with_retry_from E ow rn row ms False n_retries d a tr =
         (Inl (OverflowError ''int too large to convert to float''), tr1)))
   \<and> (\<bar>x\<bar> * 2 ^ j < 2 ^ 1024 \<longrightarrow> float_scale (Fin x) j = Fin (x * 2 ^ j))
   \<and> (create_issue_via_api E ow rn row ms dry tr = (Inl e2, tr2) \<and> \<not> transient e2 \<longrightarrow>
      create_issue_with_retry E ow rn row ms dry n_retries d tr = (Inl e2, tr2))
   \<and> (\<exists>k delta.
        snd (create_issue_with_retry E ow rn row ms dry n_retries d tr) = tr @ delta
        \<and> sleeps delta = map (\<lambda>i. float_scale d i) [0..<k]
        \<and> attempts delta = Suc k
        \<and> int (Suc k) \<le> max 1 n_retries
        \<and> (1 \<le> n_retries \<longrightarrow> int (Suc k) \<le> n_retries)
        \<and> (dry \<longrightarrow> k = 0))"
proof (intro conjI impI)
  show "transient e \<longleftrightarrow>
        (\<exists>tok ps ss. tok \<in> set transient_tokens \<and> py_lower (exn_str e) = ps @ tok @ ss)"
    by (rule transient_iff)
next
  assume h: "0 \<le> a \<and> create_issue_via_api E ow rn row ms False tr = (Inl e1, tr1)
          \<and> is_Exception e1 \<and> transient e1 \<and> a + 1 < n_retries"
  then have h': "create_issue_via_api E ow rn row ms False tr = (Inl e1, tr1)"
    "is_Exception e1" "transient e1" "a + 1 < n_retries" "0 \<le> a"
    by simp_all
  {
    assume s: "nat a < 1024
         \<and> nap E (tr1 @ [Printed (RetryNote (a + 1) n_retries (exn_str e1)
                                   (float_scale d (nat a)))])
              (float_scale d (nat a)) = None"
    then have b: "backoff d (a + 1) = Inr (float_scale d (nat a))"
      using h'(5) by (simp add: backoff_in_range)
    from s have n: "nap E (tr1 @ [Printed (RetryNote (a + 1) n_retries (exn_str e1)
                                   (float_scale d (nat a)))])
              (float_scale d (nat a)) = None" by simp
    from retry_step_again[OF h'(1,2,3,4) b n]
    show "create_issue_with_retry_from E ow rn row ms False n_retries d a tr =
       create_issue_with_retry_from E ow rn row ms False n_retries d (a + 1)
         (tr1 @ [Printed (RetryNote (a + 1) n_retries (exn_str e1) (float_scale d (nat a))),
                 Slept (float_scale d (nat a))])" .
  }
  {
    assume s: "nat a < 1024
         \<and> nap E (tr1 @ [Printed (RetryNote (a + 1) n_retries (exn_str e1)
                                   (float_scale d (nat a)))])
              (float_scale d (nat a)) = Some e3"
    then have b: "backoff d (a + 1) = Inr (float_scale d (nat a))"
      using h'(5) by (simp add: backoff_in_range)
    from s have n: "nap E (tr1 @ [Printed (RetryNote (a + 1) n_retries (exn_str e1)
                                   (float_scale d (nat a)))])
              (float_scale d (nat a)) = Some e3" by simp
    from retry_step_sleep_raises[OF h'(1,2,3,4) b n]
    show "create_issue_with_retry_from E ow rn row ms False n_retries d a tr =
         (Inl e3, tr1 @ [Printed (RetryNote (a + 1) n_retries (exn_str e1)
                                    (float_scale d (nat a)))])" .
  }
  {
    assume "1024 \<le> nat a"
    then have b: "backoff d (a + 1) = Inl (OverflowError ''int too large to convert to float'')"
      using h'(5) by (simp add: backoff_out_of_range)
    from retry_step_backoff_raises[OF h'(1,2,3,4) b]
    show "create_issue_with_retry_from E ow rn row ms False n_retries d a tr =
         (Inl (OverflowError ''int too large to convert to float''), tr1)" .
  }
next
  assume "\<bar>x\<bar> * 2 ^ j < 2 ^ 1024"
  then show "float_scale (Fin x) j = Fin (x * 2 ^ j)" by (rule float_scale_finite)
next
  assume "create_issue_via_api E ow rn row ms dry tr = (Inl e2, tr2) \<and> \<not> transient e2"
  then show "create_issue_with_retry E ow rn row ms dry n_retries d tr = (Inl e2, tr2)"
    unfolding create_issue_with_retry_def
    by (subst create_issue_with_retry_from.simps) (simp add: Let_def)
next
  from retry_from_trace[of 0 E ow rn row ms dry n_retries d tr] obtain k delta where
    k: "snd (create_issue_with_retry_from E ow rn row ms dry n_retries d 0 tr) = tr @ delta"
       "sleeps delta = map (\<lambda>i. float_scale d (nat 0 + i)) [0..<k]"
       "attempts delta = Suc k" "0 < n_retries \<longrightarrow> 0 + int k < n_retries"
       "n_retries \<le> 0 \<longrightarrow> k = 0" "dry \<longrightarrow> k = 0"
    by auto
  from k(4,5) have "int (Suc k) \<le> max 1 n_retries"
    and "1 \<le> n_retries \<longrightarrow> int (Suc k) \<le> n_retries"
    by (cases "0 < n_retries"; simp)+
  with k have "snd (create_issue_with_retry E ow rn row ms dry n_retries d tr) = tr @ delta
          \<and> sleeps delta = map (\<lambda>i. float_scale d i) [0..<k]
          \<and> attempts delta = Suc k
          \<and> int (Suc k) \<le> max 1 n_retries
          \<and> (1 \<le> n_retries \<longrightarrow> int (Suc k) \<le> n_retries)
          \<and> (dry \<longrightarrow> k = 0)"
    by (simp add: create_issue_with_retry_def)
  then show "\<exists>k delta.
          snd (create_issue_with_retry E ow rn row ms dry n_retries d tr) = tr @ delta
          \<and> sleeps delta = map (\<lambda>i. float_scale d i) [0..<k]
          \<and> attempts delta = Suc k
          \<and> int (Suc k) \<le> max 1 n_retries
          \<and> (1 \<le> n_retries \<longrightarrow> int (Suc k) \<le> n_retries)
          \<and> (dry \<longrightarrow> k = 0)" by blast
qed

text \<open>
  A run with \<open>--retry-base-delay 1e10\<close> and \<open>--no-label-create\<close> on a file of one row.
  The creation fails with a rate-limit error, which is transient, and two attempts
  remain; but \<open>time.sleep\<close> refuses the delay of \<open>1e10\<close> seconds with an OverflowError.
  There is one attempt and no sleep, the row fails with that exception, and the status
  is 1, although the second call would have been answered.
\<close>

theorem retry_sleep_refused_counterexample:
  "create_issue_via_api env_retry ''o'' ''r'' row_t None False [] =
       (Inl (failure_t ''API rate limit exceeded''), [post_t])
   \<and> transient (failure_t ''API rate limit exceeded'')
   \<and> create_issue_with_retry env_retry ''o'' ''r'' row_t None False 3 (Fin 10000000000) [] =
       (Inl (OverflowError ''timestamp out of range for platform time_t''),
        [post_t, Printed (RetryNote 1 3 (exn_str (failure_t ''API rate limit exceeded''))
                            (Fin 10000000000))])
   \<and> sleeps [post_t, Printed (RetryNote 1 3 (exn_str (failure_t ''API rate limit exceeded''))
                                 (Fin 10000000000))] = []
   \<and> attempts [post_t, Printed (RetryNote 1 3 (exn_str (failure_t ''API rate limit exceeded''))
                                   (Fin 10000000000))] = 1
   \<and> script env_retry args_slow (Some csv_bug) [] =
       (1, [post_t, Printed (RetryNote 1 3 (exn_str (failure_t ''API rate limit exceeded''))
                               (Fin 10000000000)),
            Printed (RowError (''Row 1 ('' @ sq @ ''T'' @ sq
               @ '') failed: timestamp out of range for platform time_t'')),
            Printed (Summary [] [''Row 1 ('' @ sq @ ''T'' @ sq
               @ '') failed: timestamp out of range for platform time_t''])])"
  by code_simp

text \<open>
  Two rate-limit failures and a success with three attempts allowed: sleeps of 1 and 2
  seconds, three attempts. A base delay of \<open>1e10\<close> seconds: the sleep is refused after
  the first attempt. Attempt number 1025 of 1026: the power of two is too large for a
  float. A validation failure: one attempt, no sleep.
\<close>

theorem create_issue_with_retry_policy_witness:
  "(1::int) \<le> 3
   \<and> create_issue_via_api env_retry ''o'' ''r'' row_t None False [] =
       (Inl (failure_t ''API rate limit exceeded''), [post_t])
   \<and> transient (failure_t ''API rate limit exceeded'')
   \<and> float_scale (Fin 1) (nat 0) = Fin 1
   \<and> nap env_retry ([post_t] @ [Printed (RetryNote (0 + 1) 3
           (exn_str (failure_t ''API rate limit exceeded'')) (float_scale (Fin 1) (nat 0)))])
         (float_scale (Fin 1) (nat 0)) = None
   \<and> create_issue_with_retry_from env_retry ''o'' ''r'' row_t None False 3 (Fin 1) 0 [] =
       create_issue_with_retry_from env_retry ''o'' ''r'' row_t None False 3 (Fin 1) (0 + 1)
         ([post_t] @ [Printed (RetryNote (0 + 1) 3 (exn_str (failure_t ''API rate limit exceeded''))
                        (float_scale (Fin 1) (nat 0))),
                      Slept (float_scale (Fin 1) (nat 0))])
   \<and> create_issue_with_retry env_retry ''o'' ''r'' row_t None False 3 (Fin 1) [] =
       (Inr (7, ''https://github.com/o/r/issues/7''),
        [post_t, Printed (RetryNote 1 3 (exn_str (failure_t ''API rate limit exceeded'')) (Fin 1)),
         Slept (Fin 1),
         post_t, Printed (RetryNote 2 3 (exn_str (failure_t ''HTTP 502'')) (Fin 2)),
         Slept (Fin 2),
         post_t])
   \<and> (\<exists>k delta.
         snd (create_issue_with_retry env_retry ''o'' ''r'' row_t None False 3 (Fin 1) []) = [] @ delta
         \<and> sleeps delta = map (\<lambda>i. float_scale (Fin 1) i) [0..<k] \<and> attempts delta = Suc k
         \<and> int (Suc k) \<le> 3)
   \<and> nap env_retry ([post_t] @ [Printed (RetryNote (0 + 1) 3
           (exn_str (failure_t ''API rate limit exceeded''))
           (float_scale (Fin 10000000000) (nat 0)))])
         (float_scale (Fin 10000000000) (nat 0))
       = Some (OverflowError ''timestamp out of range for platform time_t'')
   \<and> create_issue_with_retry_from env_retry ''o'' ''r'' row_t None False 3 (Fin 10000000000) 0 [] =
       (Inl (OverflowError ''timestamp out of range for platform time_t''),
        [post_t] @ [Printed (RetryNote (0 + 1) 3 (exn_str (failure_t ''API rate limit exceeded''))
                      (float_scale (Fin 10000000000) (nat 0)))])
   \<and> create_issue_with_retry_from env_retry ''o'' ''r'' row_t None False 1026 (Fin 1) 1024 [] =
       (Inl (OverflowError ''int too large to convert to float''), [post_t])
   \<and> float_scale (Fin 1) 1 = Fin (1 * 2 ^ 1)
   \<and> create_issue_via_api env_invalid ''o'' ''r'' row_t None False [] =
       (Inl (failure_t ''HTTP 422: Validation Failed''), [post_t])
   \<and> \<not> transient (failure_t ''HTTP 422: Validation Failed'')
   \<and> create_issue_with_retry env_invalid ''o'' ''r'' row_t None False 3 (Fin 1) [] =
       (Inl (failure_t ''HTTP 422: Validation Failed''), [post_t])"
proof -
  have h: "(1::int) \<le> 3" by simp
  have first: "create_issue_via_api env_retry ''o'' ''r'' row_t None False [] =
       (Inl (failure_t ''API rate limit exceeded''), [post_t])"
    by code_simp
  have tr: "transient (failure_t ''API rate limit exceeded'')" by code_simp
  have ex: "is_Exception (failure_t ''API rate limit exceeded'')"
    by (simp add: is_Exception_def failure_t_def)
  have fs: "float_scale (Fin 1) (nat 0) = Fin 1" by (simp add: float_scale_def)
  have n1: "nap env_retry ([post_t] @ [Printed (RetryNote (0 + 1) 3
           (exn_str (failure_t ''API rate limit exceeded'')) (float_scale (Fin 1) (nat 0)))])
         (float_scale (Fin 1) (nat 0)) = None"
    by (simp add: env_retry_def scripted_def clock_nap_def float_scale_def)
  have n2: "nap env_retry ([post_t] @ [Printed (RetryNote (0 + 1) 3
           (exn_str (failure_t ''API rate limit exceeded''))
           (float_scale (Fin 10000000000) (nat 0)))])
         (float_scale (Fin 10000000000) (nat 0))
       = Some (OverflowError ''timestamp out of range for platform time_t'')"
    by (simp add: env_retry_def scripted_def clock_nap_def float_scale_def)
  have whole: "create_issue_with_retry env_retry ''o'' ''r'' row_t None False 3 (Fin 1) [] =
       (Inr (7, ''https://github.com/o/r/issues/7''),
        [post_t, Printed (RetryNote 1 3 (exn_str (failure_t ''API rate limit exceeded'')) (Fin 1)),
         Slept (Fin 1),
         post_t, Printed (RetryNote 2 3 (exn_str (failure_t ''HTTP 502'')) (Fin 2)),
         Slept (Fin 2),
         post_t])"
    by code_simp
  have bad: "create_issue_via_api env_invalid ''o'' ''r'' row_t None False [] =
       (Inl (failure_t ''HTTP 422: Validation Failed''), [post_t])"
    by code_simp
  have nt: "\<not> transient (failure_t ''HTTP 422: Validation Failed'')" by code_simp
  have ar: "(0::int) \<le> 0" "(0::int) + 1 < 3" "nat 0 < 1024" by simp_all
  have ar2: "(0::int) \<le> 1024" "(1024::int) + 1 < 1026" "1024 \<le> nat 1024" by simp_all
  have sm: "\<bar>1::real\<bar> * 2 ^ 1 < 2 ^ 1024" by simp
  note P = create_issue_with_retry_policy [where n_retries = 3 and a = 0 and E = env_retry
      and e = KeyboardInterrupt and ?e2.0 = KeyboardInterrupt and ?tr2.0 = "[]" and ow = "''o''"
      and rn = "''r''" and row = row_t and ms = None and tr = "[]" and d = "Fin 1" and dry = False
      and ?e1.0 = "failure_t ''API rate limit exceeded''" and ?tr1.0 = "[post_t]"
      and ?e3.0 = KeyboardInterrupt and x = 1 and j = 1]
  note R = create_issue_with_retry_policy [where n_retries = 3 and a = 0 and E = env_retry
      and e = KeyboardInterrupt and ?e2.0 = KeyboardInterrupt and ?tr2.0 = "[]" and ow = "''o''"
      and rn = "''r''" and row = row_t and ms = None and tr = "[]" and d = "Fin 10000000000"
      and dry = False
      and ?e1.0 = "failure_t ''API rate limit exceeded''" and ?tr1.0 = "[post_t]"
      and ?e3.0 = "OverflowError ''timestamp out of range for platform time_t''" and x = 1 and j = 1]
  note S = create_issue_with_retry_policy [where n_retries = 1026 and a = 1024 and E = env_retry
      and e = KeyboardInterrupt and ?e2.0 = KeyboardInterrupt and ?tr2.0 = "[]" and ow = "''o''"
      and rn = "''r''" and row = row_t and ms = None and tr = "[]" and d = "Fin 1" and dry = False
      and ?e1.0 = "failure_t ''API rate limit exceeded''" and ?tr1.0 = "[post_t]"
      and ?e3.0 = KeyboardInterrupt and x = 1 and j = 1]
  note Q = create_issue_with_retry_policy [where n_retries = 3 and E = env_invalid
      and e = KeyboardInterrupt
      and a = 0 and ?e1.0 = KeyboardInterrupt and ?tr1.0 = "[]" and ow = "''o''"
      and rn = "''r''" and row = row_t and ms = None and tr = "[]" and d = "Fin 1" and dry = False
      and ?e2.0 = "failure_t ''HTTP 422: Validation Failed''" and ?tr2.0 = "[post_t]"
      and ?e3.0 = KeyboardInterrupt and x = 1 and j = 1]
  from P first tr ex ar n1 have step:
    "create_issue_with_retry_from env_retry ''o'' ''r'' row_t None False 3 (Fin 1) 0 [] =
       create_issue_with_retry_from env_retry ''o'' ''r'' row_t None False 3 (Fin 1) (0 + 1)
         ([post_t] @ [Printed (RetryNote (0 + 1) 3 (exn_str (failure_t ''API rate limit exceeded''))
                        (float_scale (Fin 1) (nat 0))),
                      Slept (float_scale (Fin 1) (nat 0))])"
    by blast
  from P h have bound: "\<exists>k delta.
         snd (create_issue_with_retry env_retry ''o'' ''r'' row_t None False 3 (Fin 1) []) = [] @ delta
         \<and> sleeps delta = map (\<lambda>i. float_scale (Fin 1) i) [0..<k] \<and> attempts delta = Suc k
         \<and> int (Suc k) \<le> 3"
    by blast
  from P sm have fin: "float_scale (Fin 1) 1 = Fin (1 * 2 ^ 1)" by blast
  from R first tr ex ar n2 have refused:
    "create_issue_with_retry_from env_retry ''o'' ''r'' row_t None False 3 (Fin 10000000000) 0 [] =
       (Inl (OverflowError ''timestamp out of range for platform time_t''),
        [post_t] @ [Printed (RetryNote (0 + 1) 3 (exn_str (failure_t ''API rate limit exceeded''))
                      (float_scale (Fin 10000000000) (nat 0)))])"
    by blast
  from S first tr ex ar2 have large:
    "create_issue_with_retry_from env_retry ''o'' ''r'' row_t None False 1026 (Fin 1) 1024 [] =
       (Inl (OverflowError ''int too large to convert to float''), [post_t])"
    by blast
  from Q bad nt have stop:
    "create_issue_with_retry env_invalid ''o'' ''r'' row_t None False 3 (Fin 1) [] =
       (Inl (failure_t ''HTTP 422: Validation Failed''), [post_t])"
    by blast
  from h first tr fs n1 step whole bound n2 refused large fin bad nt stop show ?thesis by blast
qed

subsection \<open>The label list\<close>

text \<open>
  C3, as the code has it. When the label list succeeds with JSON that is not a list,
  \<open>get_existing_labels\<close> yields no labels. When the call ends with an error status,
  \<open>gh_json\<close> raises RuntimeError; neither \<open>get_existing_labels\<close> nor \<open>ensure_labels\<close> nor
  \<open>main\<close> catches it, so with label creation enabled and a label in some row the run
  ends with that exception before any row is processed.
\<close>

theorem get_existing_labels_degrades:
  "(respond E tr (label_list_cmd repo) None = Completed 0 out err \<and> loads E out = Inr v
      \<and> (\<forall>items. v \<noteq> JList items) \<longrightarrow>
      get_existing_labels E repo tr = (Inr [], tr @ [Ran (label_list_cmd repo) None]))
   \<and> (respond E tr (label_list_cmd repo) None = Completed code out err \<and> code \<noteq> 0 \<longrightarrow>
      get_existing_labels E repo tr =
        (Inl (RuntimeError (''Command failed: '' @ py_join '' '' (label_list_cmd repo) @ nl @ err)),
         tr @ [Ran (label_list_cmd repo) None])
      \<and> (lbls \<noteq> [] \<longrightarrow>
           ensure_labels E repo lbls dry tr =
             (Inl (RuntimeError
                (''Command failed: '' @ py_join '' '' (label_list_cmd repo) @ nl @ err)),
              tr @ [Ran (label_list_cmd repo) None]))
      \<and> (\<not> arg_no_label_create A \<and> concat (map labels rows) \<noteq> [] \<longrightarrow>
           import_rows E A ow rn repo rows tr =
             (Inl (RuntimeError
                (''Command failed: '' @ py_join '' '' (label_list_cmd repo) @ nl @ err)),
              tr @ [Ran (label_list_cmd repo) None])))"
proof (intro conjI impI)
  assume "respond E tr (label_list_cmd repo) None = Completed 0 out err \<and> loads E out = Inr v
      \<and> (\<forall>items. v \<noteq> JList items)"
  then show "get_existing_labels E repo tr = (Inr [], tr @ [Ran (label_list_cmd repo) None])"
    by (cases v) (auto simp: get_existing_labels_def gh_json_def run_def label_list_cmd_def)
next
  assume h: "respond E tr (label_list_cmd repo) None = Completed code out err \<and> code \<noteq> 0"
  then show g: "get_existing_labels E repo tr =
        (Inl (RuntimeError (''Command failed: '' @ py_join '' '' (label_list_cmd repo) @ nl @ err)),
         tr @ [Ran (label_list_cmd repo) None])"
    by (simp add: get_existing_labels_def gh_json_def run_def label_list_cmd_def)
  {
    assume "lbls \<noteq> []"
    with g show "ensure_labels E repo lbls dry tr =
             (Inl (RuntimeError
                (''Command failed: '' @ py_join '' '' (label_list_cmd repo) @ nl @ err)),
              tr @ [Ran (label_list_cmd repo) None])"
      by (simp add: ensure_labels_def)
  }
  {
    assume a: "\<not> arg_no_label_create A \<and> concat (map labels rows) \<noteq> []"
    then have "set (concat (map labels rows)) \<noteq> {}"
      by (simp only: set_empty not_False_eq_True)
    then have "set (sort (remdups (concat (map labels rows)))) \<noteq> {}"
      by (simp only: set_sort set_remdups not_False_eq_True)
    then have "sort (remdups (concat (map labels rows))) \<noteq> []"
      by (simp only: set_empty not_False_eq_True)
    with a g show "import_rows E A ow rn repo rows tr =
             (Inl (RuntimeError
                (''Command failed: '' @ py_join '' '' (label_list_cmd repo) @ nl @ err)),
              tr @ [Ran (label_list_cmd repo) None])"
      by (simp add: import_rows_def label_step_def ensure_labels_def)
  }
qed

text \<open>
  The label list ends with status 1: \<open>get_existing_labels\<close> raises, and so does \<open>main\<close>
  on a file whose only row has a label.
\<close>

theorem label_list_failure_counterexample:
  "get_existing_labels env_label_list_fails ''o/r'' [] =
     (Inl (RuntimeError (''Command failed: gh label list --json name -R o/r'' @ nl
             @ ''HTTP 401: Bad credentials'')),
      [Ran (label_list_cmd ''o/r'') None])
   \<and> main env_label_list_fails args0 (Some csv_bug) [] =
     (Inl (RuntimeError (''Command failed: gh label list --json name -R o/r'' @ nl
             @ ''HTTP 401: Bad credentials'')),
      [Ran (label_list_cmd ''o/r'') None])"
  by code_simp

text \<open>A JSON object instead of a list gives no labels; an error status ends the run.\<close>

theorem get_existing_labels_degrades_witness:
  "respond env_label_list_dict [] (label_list_cmd ''o/r'') None
     = Completed 0 (json_dumps not_found) []
   \<and> loads env_label_list_dict (json_dumps not_found) = Inr not_found
   \<and> get_existing_labels env_label_list_dict ''o/r'' [] =
       (Inr [], [] @ [Ran (label_list_cmd ''o/r'') None])
   \<and> respond env_label_list_fails [] (label_list_cmd ''o/r'') None
     = Completed 1 [] ''HTTP 401: Bad credentials''
   \<and> get_existing_labels env_label_list_fails ''o/r'' [] =
       (Inl (RuntimeError (''Command failed: '' @ py_join '' '' (label_list_cmd ''o/r'') @ nl
               @ ''HTTP 401: Bad credentials'')),
        [] @ [Ran (label_list_cmd ''o/r'') None])
   \<and> ensure_labels env_label_list_fails ''o/r'' [''bug''] False [] =
       (Inl (RuntimeError (''Command failed: '' @ py_join '' '' (label_list_cmd ''o/r'') @ nl
               @ ''HTTP 401: Bad credentials'')),
        [] @ [Ran (label_list_cmd ''o/r'') None])
   \<and> import_rows env_label_list_fails args0 ''o'' ''r'' ''o/r'' [row_t] [] =
       (Inl (RuntimeError (''Command failed: '' @ py_join '' '' (label_list_cmd ''o/r'') @ nl
               @ ''HTTP 401: Bad credentials'')),
        [] @ [Ran (label_list_cmd ''o/r'') None])"
proof -
  have r1: "respond env_label_list_dict [] (label_list_cmd ''o/r'') None
     = Completed 0 (json_dumps not_found) []"
    by code_simp
  have l1: "loads env_label_list_dict (json_dumps not_found) = Inr not_found"
    by code_simp
  have n1: "\<forall>items. not_found \<noteq> JList items"
    by (simp add: not_found_def)
  have r2: "respond env_label_list_fails [] (label_list_cmd ''o/r'') None
     = Completed 1 [] ''HTTP 401: Bad credentials''"
    by code_simp
  have c2: "(1::int) \<noteq> 0" by simp
  have b2: "[''bug''] \<noteq> ([]::string list)" by simp
  have a2: "\<not> arg_no_label_create args0" by (simp add: args0_def)
  have k2: "concat (map labels [row_t]) \<noteq> []" by (simp add: row_t_def)
  note P = get_existing_labels_degrades [where E = env_label_list_dict and tr = "[]"
      and repo = "''o/r''" and out = "json_dumps not_found" and err = "[]" and v = not_found
      and code = 0 and lbls = "[]" and dry = False and A = args0 and rows = "[]"
      and ow = "''o''" and rn = "''r''"]
  note Q = get_existing_labels_degrades [where E = env_label_list_fails and tr = "[]"
      and repo = "''o/r''" and out = "[]" and err = "''HTTP 401: Bad credentials''"
      and v = JNull and code = 1 and lbls = "[''bug'']" and dry = False and A = args0
      and rows = "[row_t]" and ow = "''o''" and rn = "''r''"]
  from P r1 l1 n1 have g1: "get_existing_labels env_label_list_dict ''o/r'' [] =
       (Inr [], [] @ [Ran (label_list_cmd ''o/r'') None])"
    by blast
  from Q r2 c2 b2 a2 k2 have g2:
    "get_existing_labels env_label_list_fails ''o/r'' [] =
       (Inl (RuntimeError (''Command failed: '' @ py_join '' '' (label_list_cmd ''o/r'') @ nl
               @ ''HTTP 401: Bad credentials'')),
        [] @ [Ran (label_list_cmd ''o/r'') None])
     \<and> ensure_labels env_label_list_fails ''o/r'' [''bug''] False [] =
       (Inl (RuntimeError (''Command failed: '' @ py_join '' '' (label_list_cmd ''o/r'') @ nl
               @ ''HTTP 401: Bad credentials'')),
        [] @ [Ran (label_list_cmd ''o/r'') None])
     \<and> import_rows env_label_list_fails args0 ''o'' ''r'' ''o/r'' [row_t] [] =
       (Inl (RuntimeError (''Command failed: '' @ py_join '' '' (label_list_cmd ''o/r'') @ nl
               @ ''HTTP 401: Bad credentials'')),
        [] @ [Ran (label_list_cmd ''o/r'') None])"
    by blast
  from r1 l1 g1 r2 g2 show ?thesis by blast
qed

subsection \<open>The milestone list\<close>

text \<open>Pages on a line each are merged: the fallback of \<open>get_milestones_map\<close> reads lines.\<close>

lemma get_milestones_map_line_delimited:
  "get_milestones_map env_pages_lines ''o'' ''r'' [] =
     (Inr [(''v1'', 1), (''v2'', 2)], [Ran milestones_cmd None])"
  by code_simp

text \<open>
  For every decoder: an output of one line that is no JSON document gives the empty
  mapping, whatever the line holds.
\<close>

lemma get_milestones_map_single_line:
  assumes "respond E tr [''gh'', ''api'', ''--paginate'',
              ''repos/'' @ ow @ ''/'' @ rn @ ''/milestones''] None = Completed 0 out err"
    and "loads E out = Inl m1" and "py_splitlines out = [out]"
    and "loads E (py_strip out) = Inl m2"
  shows "get_milestones_map E ow rn tr =
     (Inr [], tr @ [Ran [''gh'', ''api'', ''--paginate'',
                         ''repos/'' @ ow @ ''/'' @ rn @ ''/milestones''] None])"
  using assms by (simp add: get_milestones_map_def run_def Let_def)

text \<open>
  C6 at the input \<open>[{"title": "v1", "number": 1}][{"title": "V2", "number": 2}]\<close>, two
  pages on one line. Each page alone is a JSON document; their concatenation is none,
  and it is a single line, so the fallback finds nothing to merge: the lookup yields
  the empty mapping, not the union of the two pages.
\<close>

theorem get_milestones_map_concatenated:
  "loads env_pages_concat (json_dumps page1) = Inr page1
   \<and> loads env_pages_concat (json_dumps page2) = Inr page2
   \<and> py_splitlines (json_dumps page1 @ json_dumps page2) = [json_dumps page1 @ json_dumps page2]
   \<and> get_milestones_map env_pages_concat ''o'' ''r'' [] = (Inr [], [Ran milestones_cmd None])"
  by code_simp

subsection \<open>The milestone sentinel of a dry run\<close>

lemma issue_payload_milestone:
  "\<exists>kvs. issue_payload row ms = JDict kvs
     \<and> map_of kvs ''milestone'' = (case ms of None \<Rightarrow> None | Some n \<Rightarrow> if 0 < n then Some (JInt n) else None)"
  by (cases ms) (auto simp: issue_payload_def)

text \<open>
  C8. In dry-run mode \<open>ensure_milestone\<close> returns \<open>-1\<close> for a title that the milestone
  list it fetches does not hold (it looks the title up in a list of its own, fetched at
  each call). Its caller in \<open>main\<close> stores a result in the milestone cache only when it
  is positive: with a result that is not positive the cache stays as it was and no
  milestone number is passed on. The payload of the creation request has a
  \<open>milestone\<close> field only for a positive number.
\<close>

theorem dry_run_milestone_sentinel:
  "(get_milestones_map E ow rn tr = (Inr m, tr1) \<and> map_of m (py_lower t) = None \<longrightarrow>
      ensure_milestone E ow rn t True tr = (Inr (- 1), tr1 @ [Printed (DryRunMilestone t ow rn)]))
   \<and> (milestone row = Some t \<and> t \<noteq> [] \<and> \<not> arg_no_milestone_create A
        \<and> (case cache of Some c0 \<Rightarrow> (Inr c0, tr) | None \<Rightarrow> get_milestones_map E ow rn tr)
            = (Inr c, tr1)
        \<and> map_of c (py_lower t) = None
        \<and> ensure_milestone E ow rn t (arg_dry_run A) tr1 = (Inr msn, tr2) \<and> \<not> 0 < msn \<longrightarrow>
      resolve_milestone E A ow rn row cache tr = (Inr None, Some c, tr2))
   \<and> (\<exists>kvs. issue_payload row ms = JDict kvs
        \<and> map_of kvs ''milestone''
            = (case ms of None \<Rightarrow> None | Some n \<Rightarrow> if 0 < n then Some (JInt n) else None))"
proof (intro conjI impI)
  assume "get_milestones_map E ow rn tr = (Inr m, tr1) \<and> map_of m (py_lower t) = None"
  then show "ensure_milestone E ow rn t True tr
      = (Inr (- 1), tr1 @ [Printed (DryRunMilestone t ow rn)])"
    by (simp add: ensure_milestone_def)
next
  assume h: "milestone row = Some t \<and> t \<noteq> [] \<and> \<not> arg_no_milestone_create A
        \<and> (case cache of Some c0 \<Rightarrow> (Inr c0, tr) | None \<Rightarrow> get_milestones_map E ow rn tr)
            = (Inr c, tr1)
        \<and> map_of c (py_lower t) = None
        \<and> ensure_milestone E ow rn t (arg_dry_run A) tr1 = (Inr msn, tr2) \<and> \<not> 0 < msn"
  then show "resolve_milestone E A ow rn row cache tr = (Inr None, Some c, tr2)"
    by (simp add: resolve_milestone_def Let_def)
next
  show "\<exists>kvs. issue_payload row ms = JDict kvs
        \<and> map_of kvs ''milestone''
            = (case ms of None \<Rightarrow> None | Some n \<Rightarrow> if 0 < n then Some (JInt n) else None)"
    by (rule issue_payload_milestone)
qed

text \<open>
  A dry run for the milestone \<open>V9\<close>, which the list does not hold: the sentinel comes
  back, the cache is the fetched list, and the payload has no milestone.
\<close>

theorem dry_run_milestone_sentinel_witness:
  "get_milestones_map env_one_page ''o'' ''r'' [] = (Inr [(''v1'', 1)], [Ran milestones_cmd None])
   \<and> map_of [(''v1'', 1::int)] (py_lower ''V9'') = None
   \<and> ensure_milestone env_one_page ''o'' ''r'' ''V9'' True [] =
       (Inr (- 1), [Ran milestones_cmd None] @ [Printed (DryRunMilestone ''V9'' ''o'' ''r'')])
   \<and> ensure_milestone env_one_page ''o'' ''r'' ''V9'' (arg_dry_run args_dry) [Ran milestones_cmd None] =
       (Inr (- 1), [Ran milestones_cmd None, Ran milestones_cmd None,
                    Printed (DryRunMilestone ''V9'' ''o'' ''r'')])
   \<and> resolve_milestone env_one_page args_dry ''o'' ''r'' row_m None [] =
       (Inr None, Some [(''v1'', 1)],
        [Ran milestones_cmd None, Ran milestones_cmd None,
         Printed (DryRunMilestone ''V9'' ''o'' ''r'')])
   \<and> (\<exists>kvs. issue_payload row_m None = JDict kvs \<and> map_of kvs ''milestone'' = None)"
proof -
  have g: "get_milestones_map env_one_page ''o'' ''r'' [] =
      (Inr [(''v1'', 1)], [Ran milestones_cmd None])"
    by code_simp
  have l: "map_of [(''v1'', 1::int)] (py_lower ''V9'') = None" by code_simp
  have e2: "ensure_milestone env_one_page ''o'' ''r'' ''V9'' (arg_dry_run args_dry)
       [Ran milestones_cmd None] =
       (Inr (- 1), [Ran milestones_cmd None, Ran milestones_cmd None,
                    Printed (DryRunMilestone ''V9'' ''o'' ''r'')])"
    by code_simp
  have m: "milestone row_m = Some ''V9''" "''V9'' \<noteq> []" "\<not> arg_no_milestone_create args_dry"
    "\<not> 0 < (- 1 :: int)"
    by (simp_all add: row_m_def args_dry_def args0_def)
  have c: "(case None of Some c0 \<Rightarrow> (Inr c0, []) | None \<Rightarrow> get_milestones_map env_one_page ''o'' ''r'' [])
      = (Inr [(''v1'', 1)], [Ran milestones_cmd None])"
    using g by simp
  note P = dry_run_milestone_sentinel [where E = env_one_page and ow = "''o''" and rn = "''r''"
      and tr = "[]" and m = "[(''v1'', 1)]" and ?tr1.0 = "[Ran milestones_cmd None]"
      and t = "''V9''" and row = row_m and A = args_dry and cache = None
      and c = "[(''v1'', 1)]" and msn = "- 1"
      and ?tr2.0 = "[Ran milestones_cmd None, Ran milestones_cmd None,
                    Printed (DryRunMilestone ''V9'' ''o'' ''r'')]" and ms = None]
  from P g l have e1: "ensure_milestone env_one_page ''o'' ''r'' ''V9'' True [] =
       (Inr (- 1), [Ran milestones_cmd None] @ [Printed (DryRunMilestone ''V9'' ''o'' ''r'')])"
    by blast
  from P m c l e2 have r: "resolve_milestone env_one_page args_dry ''o'' ''r'' row_m None [] =
       (Inr None, Some [(''v1'', 1)],
        [Ran milestones_cmd None, Ran milestones_cmd None,
         Printed (DryRunMilestone ''V9'' ''o'' ''r'')])"
    by blast
  from P have p: "\<exists>kvs. issue_payload row_m None = JDict kvs \<and> map_of kvs ''milestone'' = None"
    by simp
  from g l e1 e2 r p show ?thesis by blast
qed

subsection \<open>A label that cannot be created\<close>

lemma run_raises:
  "run E cmd inp tr = (Inl e, tr') \<Longrightarrow>
     tr' = tr @ [Ran cmd inp]
     \<and> (respond E tr cmd inp = Interrupted \<and> e = KeyboardInterrupt
        \<or> respond E tr cmd inp = Failed e)"
  by (auto simp: run_def split: response.splits)

lemma ensure_labels_loop_raises:
  "ensure_labels_loop E repo existing dry lbls tr = (Inl e, tr') \<Longrightarrow>
     \<exists>l tr0. l \<in> set lbls \<and> tr' = tr0 @ [Ran (label_create_cmd l repo) None]
       \<and> (respond E tr0 (label_create_cmd l repo) None = Interrupted \<and> e = KeyboardInterrupt
          \<or> respond E tr0 (label_create_cmd l repo) None = Failed e)"
proof (induction lbls arbitrary: tr)
  case Nil
  then show ?case by simp
next
  case (Cons label rest)
  have later: ?case if "ensure_labels_loop E repo existing dry rest t = (Inl e, tr')" for t
    using Cons.IH[OF that] by auto
  show ?case
  proof (cases "py_lower label \<in> set existing \<or> dry")
    case True
    with Cons.prems later show ?thesis by (auto split: if_splits)
  next
    case False
    obtain r tr1 where r: "run E (label_create_cmd label repo) None tr = (r, tr1)"
      by (cases "run E (label_create_cmd label repo) None tr") auto
    show ?thesis
    proof (cases r)
      case (Inl e')
      with r False Cons.prems have "e = e'" "tr' = tr1" by (simp_all add: label_create_cmd_def)
      with r Inl run_raises[of E "label_create_cmd label repo" None tr e tr']
      have "tr' = tr @ [Ran (label_create_cmd label repo) None]
         \<and> (respond E tr (label_create_cmd label repo) None = Interrupted \<and> e = KeyboardInterrupt
            \<or> respond E tr (label_create_cmd label repo) None = Failed e)"
        by simp
      then show ?thesis by auto
    next
      case (Inr x)
      obtain code out err where x: "x = (code, out, err)" by (cases x) auto
      with r Inr False Cons.prems later show ?thesis
        by (auto simp: label_create_cmd_def split: if_splits)
    qed
  qed
qed

lemma issue_payload_labels:
  "labels row \<noteq> [] \<Longrightarrow>
     \<exists>kvs. issue_payload row ms = JDict kvs
       \<and> map_of kvs ''labels'' = Some (JList (map JStr (labels row)))"
  by (auto simp: issue_payload_def)

lemma create_issue_via_api_request:
  "snd (create_issue_via_api E ow rn row ms False tr) =
     tr @ [Ran (issue_post_cmd ow rn) (Some (json_dumps (issue_payload row ms)))]"
proof -
  obtain r tr1 where r: "run E (issue_post_cmd ow rn)
      (Some (json_dumps (issue_payload row ms))) tr = (r, tr1)"
    by (cases "run E (issue_post_cmd ow rn) (Some (json_dumps (issue_payload row ms))) tr") auto
  from run_trace[OF r] have "tr1 = tr @ [Ran (issue_post_cmd ow rn)
      (Some (json_dumps (issue_payload row ms)))]" .
  moreover from r have "snd (create_issue_via_api E ow rn row ms False tr) = tr1"
    by (auto simp: create_issue_via_api_def issue_post_cmd_def Let_def
        split: sum.splits prod.splits if_splits)
  ultimately show ?thesis by simp
qed

text \<open>
  C7, as the code has it. When the creation of a label ends with an error status,
  \<open>ensure_labels\<close> prints a warning and goes on with the next label. No exit status
  makes the loop raise: it raises only when a call that creates a label does not
  complete, because the user interrupts it or because the command cannot be started,
  and the exception is then the one of that call. The creation request of a row is
  built from the row alone: it is posted with the payload \<open>issue_payload row ms\<close>,
  whose \<open>labels\<close> field lists every label of the row, also one whose creation failed.
\<close>

theorem label_creation_failure_is_not_fatal:
  "(py_lower label \<notin> set existing
      \<and> respond E tr (label_create_cmd label repo) None = Completed code out err \<and> code \<noteq> 0 \<longrightarrow>
      ensure_labels_loop E repo existing False (label # rest) tr =
        ensure_labels_loop E repo existing False rest
          (tr @ [Ran (label_create_cmd label repo) None, Printed (WarnLabel label err)]))
   \<and> (ensure_labels_loop E repo existing dry lbls tr = (Inl e, tr') \<longrightarrow>
        (\<exists>l tr0. l \<in> set lbls \<and> tr' = tr0 @ [Ran (label_create_cmd l repo) None]
           \<and> (respond E tr0 (label_create_cmd l repo) None = Interrupted \<and> e = KeyboardInterrupt
              \<or> respond E tr0 (label_create_cmd l repo) None = Failed e)))
   \<and> snd (create_issue_via_api E ow rn row ms False tr) =
        tr @ [Ran (issue_post_cmd ow rn) (Some (json_dumps (issue_payload row ms)))]
   \<and> (labels row \<noteq> [] \<longrightarrow>
        (\<exists>kvs. issue_payload row ms = JDict kvs
           \<and> map_of kvs ''labels'' = Some (JList (map JStr (labels row)))))"
proof (intro conjI impI)
  assume "py_lower label \<notin> set existing
      \<and> respond E tr (label_create_cmd label repo) None = Completed code out err \<and> code \<noteq> 0"
  then show "ensure_labels_loop E repo existing False (label # rest) tr =
        ensure_labels_loop E repo existing False rest
          (tr @ [Ran (label_create_cmd label repo) None, Printed (WarnLabel label err)])"
    by (simp add: run_def label_create_cmd_def)
next
  assume "ensure_labels_loop E repo existing dry lbls tr = (Inl e, tr')"
  then show "\<exists>l tr0. l \<in> set lbls \<and> tr' = tr0 @ [Ran (label_create_cmd l repo) None]
           \<and> (respond E tr0 (label_create_cmd l repo) None = Interrupted \<and> e = KeyboardInterrupt
              \<or> respond E tr0 (label_create_cmd l repo) None = Failed e)"
    by (rule ensure_labels_loop_raises)
next
  show "snd (create_issue_via_api E ow rn row ms False tr) =
        tr @ [Ran (issue_post_cmd ow rn) (Some (json_dumps (issue_payload row ms)))]"
    by (rule create_issue_via_api_request)
next
  assume "labels row \<noteq> []"
  then show "\<exists>kvs. issue_payload row ms = JDict kvs
           \<and> map_of kvs ''labels'' = Some (JList (map JStr (labels row)))"
    by (rule issue_payload_labels)
qed

text \<open>
  The creation of the label \<open>bug\<close> fails with status 1; the run goes on, and the request
  that creates the issue of the row still carries \<open>"labels": ["bug"]\<close>.
\<close>

theorem failed_label_stays_in_payload_counterexample:
  "script env_label_create_fails args0 (Some csv_bug) [] =
     (0, [Ran (label_list_cmd ''o/r'') None,
          Ran (label_create_cmd ''bug'' ''o/r'') None,
          Printed (WarnLabel ''bug'' ''HTTP 403: Forbidden''),
          Ran (issue_post_cmd ''o'' ''r'')
            (Some (json_dumps (JDict [(''title'', JStr ''T''), (''labels'', JList [JStr ''bug''])]))),
          Printed (Summary [(1, ''7'', ''https://github.com/o/r/issues/7'')] [])])"
  by code_simp

text \<open>The same run, step by step, and a label creation that the user interrupts.\<close>

theorem label_creation_failure_is_not_fatal_witness:
  "py_lower ''bug'' \<notin> set []
   \<and> respond env_label_create_fails [Ran (label_list_cmd ''o/r'') None]
        (label_create_cmd ''bug'' ''o/r'') None = Completed 1 [] ''HTTP 403: Forbidden''
   \<and> ensure_labels_loop env_label_create_fails ''o/r'' [] False (''bug'' # [])
        [Ran (label_list_cmd ''o/r'') None] =
      ensure_labels_loop env_label_create_fails ''o/r'' [] False []
        ([Ran (label_list_cmd ''o/r'') None]
           @ [Ran (label_create_cmd ''bug'' ''o/r'') None,
              Printed (WarnLabel ''bug'' ''HTTP 403: Forbidden'')])
   \<and> ensure_labels_loop env_label_create_interrupted ''o/r'' [] False [''bug''] [] =
        (Inl KeyboardInterrupt, [Ran (label_create_cmd ''bug'' ''o/r'') None])
   \<and> (\<exists>l tr0. l \<in> set [''bug'']
         \<and> [Ran (label_create_cmd ''bug'' ''o/r'') None] = tr0 @ [Ran (label_create_cmd l ''o/r'') None]
         \<and> (respond env_label_create_interrupted tr0 (label_create_cmd l ''o/r'') None = Interrupted
              \<and> KeyboardInterrupt = KeyboardInterrupt
            \<or> respond env_label_create_interrupted tr0 (label_create_cmd l ''o/r'') None
                = Failed KeyboardInterrupt))
   \<and> snd (create_issue_via_api env_label_create_fails ''o'' ''r'' row_t None False []) =
        [] @ [Ran (issue_post_cmd ''o'' ''r'') (Some (json_dumps (issue_payload row_t None)))]
   \<and> labels row_t \<noteq> []
   \<and> (\<exists>kvs. issue_payload row_t None = JDict kvs
        \<and> map_of kvs ''labels'' = Some (JList (map JStr (labels row_t))))"
proof -
  have a: "py_lower ''bug'' \<notin> set []" by simp
  have b: "respond env_label_create_fails [Ran (label_list_cmd ''o/r'') None]
        (label_create_cmd ''bug'' ''o/r'') None = Completed 1 [] ''HTTP 403: Forbidden''"
    by code_simp
  have c: "(1::int) \<noteq> 0" by simp
  have d: "ensure_labels_loop env_label_create_interrupted ''o/r'' [] False [''bug''] [] =
        (Inl KeyboardInterrupt, [Ran (label_create_cmd ''bug'' ''o/r'') None])"
    by code_simp
  have l: "labels row_t \<noteq> []" by (simp add: row_t_def)
  note P = label_creation_failure_is_not_fatal [where label = "''bug''" and existing = "[]"
      and E = env_label_create_fails and tr = "[Ran (label_list_cmd ''o/r'') None]"
      and repo = "''o/r''" and code = 1 and out = "[]" and err = "''HTTP 403: Forbidden''"
      and rest = "[]" and dry = False and lbls = "[]" and e = KeyboardInterrupt and tr' = "[]"
      and ow = "''o''" and rn = "''r''" and row = row_t and ms = None]
  note Q = label_creation_failure_is_not_fatal [where label = "''bug''" and existing = "[]"
      and E = env_label_create_fails and tr = "[]"
      and repo = "''o/r''" and code = 1 and out = "[]" and err = "''HTTP 403: Forbidden''"
      and rest = "[]" and dry = False and lbls = "[]" and e = KeyboardInterrupt and tr' = "[]"
      and ow = "''o''" and rn = "''r''" and row = row_t and ms = None]
  note R = label_creation_failure_is_not_fatal [where label = "''bug''" and existing = "[]"
      and E = env_label_create_interrupted and tr = "[]"
      and repo = "''o/r''" and code = 1 and out = "[]" and err = "''HTTP 403: Forbidden''"
      and rest = "[]" and dry = False and lbls = "[''bug'']" and e = KeyboardInterrupt
      and tr' = "[Ran (label_create_cmd ''bug'' ''o/r'') None]"
      and ow = "''o''" and rn = "''r''" and row = row_t and ms = None]
  from P a b c have s: "ensure_labels_loop env_label_create_fails ''o/r'' [] False (''bug'' # [])
        [Ran (label_list_cmd ''o/r'') None] =
      ensure_labels_loop env_label_create_fails ''o/r'' [] False []
        ([Ran (label_list_cmd ''o/r'') None]
           @ [Ran (label_create_cmd ''bug'' ''o/r'') None,
              Printed (WarnLabel ''bug'' ''HTTP 403: Forbidden'')])"
    by blast
  from Q l have q: "snd (create_issue_via_api env_label_create_fails ''o'' ''r'' row_t None False []) =
        [] @ [Ran (issue_post_cmd ''o'' ''r'') (Some (json_dumps (issue_payload row_t None)))]
     \<and> (\<exists>kvs. issue_payload row_t None = JDict kvs
        \<and> map_of kvs ''labels'' = Some (JList (map JStr (labels row_t))))"
    by blast
  from R d have r: "\<exists>l tr0. l \<in> set [''bug'']
         \<and> [Ran (label_create_cmd ''bug'' ''o/r'') None] = tr0 @ [Ran (label_create_cmd l ''o/r'') None]
         \<and> (respond env_label_create_interrupted tr0 (label_create_cmd l ''o/r'') None = Interrupted
              \<and> KeyboardInterrupt = KeyboardInterrupt
            \<or> respond env_label_create_interrupted tr0 (label_create_cmd l ''o/r'') None
                = Failed KeyboardInterrupt)"
    by blast
  from a b s d r q l show ?thesis by blast
qed

subsection \<open>The loop of the Driver\<close>

lemma row_body_entry:
  "row_body E A ow rn rf idx row cache tr = (Inr c, cache1, tr1) \<Longrightarrow> fst c = idx"
  by (auto simp: row_body_def Let_def split: prod.splits sum.splits if_splits)

text \<open>
  What one iteration does to \<open>created\<close> and \<open>errors\<close>: it appends the entry of the row
  to \<open>created\<close>, or a message to \<open>errors\<close>, or both, and both only when the pause after
  the append raises.
\<close>

lemma main_row_state:
  assumes "main_row E A ow rn rf idx row (cache, created, errors) tr = (Inr (c', cr', er'), tr')"
  shows "(\<exists>n u. cr' = created @ [(idx, n, u)] \<and> er' = errors)
       \<or> (cr' = created \<and> (\<exists>m. er' = errors @ [m]))
       \<or> (\<exists>n u e t2 t3. cr' = created @ [(idx, n, u)] \<and> er' = errors @ [row_message idx row e]
             \<and> delay_step E A t2 = (Inl e, t3))"
proof -
  obtain r cache1 tr1 where b: "row_body E A ow rn rf idx row cache tr = (r, cache1, tr1)"
    by (cases "row_body E A ow rn rf idx row cache tr") auto
  show ?thesis
  proof (cases r)
    case (Inl e)
    with assms b show ?thesis by (auto simp: main_row_def split: if_splits)
  next
    case (Inr c)
    with b row_body_entry have "fst c = idx" by blast
    then obtain n u where c: "c = (idx, n, u)" by (cases c) auto
    obtain rd tr2 where d: "delay_step E A tr1 = (rd, tr2)"
      by (cases "delay_step E A tr1") auto
    show ?thesis
    proof (cases rd)
      case ok: (Inr v)
      with assms b Inr c d show ?thesis by (auto simp: main_row_def)
    next
      case (Inl e)
      with assms b Inr c d have "cr' = created @ [(idx, n, u)]
          \<and> er' = errors @ [row_message idx row e] \<and> delay_step E A tr1 = (Inl e, tr2)"
        by (auto simp: main_row_def split: if_splits)
      then show ?thesis by blast
    qed
  qed
qed



lemma main_loop_state:
  "main_loop E A ow rn rf idx rows (cache, created, errors) tr = (Inr (c', cr', er'), tr') \<Longrightarrow>
     \<exists>cr2 er2. cr' = created @ cr2 \<and> er' = errors @ er2
       \<and> length rows \<le> length cr2 + length er2
       \<and> length cr2 \<le> length rows \<and> length er2 \<le> length rows
       \<and> ((\<forall>t. fst (delay_step E A t) = Inr ()) \<longrightarrow> length cr2 + length er2 = length rows)
       \<and> list_all (\<lambda>x. idx \<le> fst x \<and> fst x < idx + length rows) cr2"
proof (induction rows arbitrary: idx cache created errors tr)
  case Nil
  then show ?case by simp
next
  case (Cons row rest)
  obtain r tr1 where m: "main_row E A ow rn rf idx row (cache, created, errors) tr = (r, tr1)"
    by (cases "main_row E A ow rn rf idx row (cache, created, errors) tr") auto
  with Cons.prems obtain c1 cr1 er1 where r: "r = Inr (c1, cr1, er1)"
    and rec: "main_loop E A ow rn rf (Suc idx) rest (c1, cr1, er1) tr1 = (Inr (c', cr', er'), tr')"
    by (cases r) auto
  from Cons.IH[OF rec] obtain cr2 er2 where
    ih: "cr' = cr1 @ cr2" "er' = er1 @ er2" "length rest \<le> length cr2 + length er2"
        "length cr2 \<le> length rest" "length er2 \<le> length rest"
        "(\<forall>t. fst (delay_step E A t) = Inr ()) \<longrightarrow> length cr2 + length er2 = length rest"
        "list_all (\<lambda>x. Suc idx \<le> fst x \<and> fst x < Suc idx + length rest) cr2"
    by blast
  from ih(7) have later: "list_all (\<lambda>x. idx \<le> fst x \<and> fst x < idx + length (row # rest)) cr2"
    by (auto simp: list_all_iff)
  from main_row_state[OF m[unfolded r]] consider
      (made) n u where "cr1 = created @ [(idx, n, u)]" "er1 = errors"
    | (failed) msg where "cr1 = created" "er1 = errors @ [msg]"
    | (both) n u e t2 t3 where "cr1 = created @ [(idx, n, u)]"
        "er1 = errors @ [row_message idx row e]" "delay_step E A t2 = (Inl e, t3)"
    by blast
  then show ?case
  proof cases
    case made
    with ih later have "cr' = created @ ((idx, n, u) # cr2) \<and> er' = errors @ er2
       \<and> length (row # rest) \<le> length ((idx, n, u) # cr2) + length er2
       \<and> length ((idx, n, u) # cr2) \<le> length (row # rest) \<and> length er2 \<le> length (row # rest)
       \<and> ((\<forall>t. fst (delay_step E A t) = Inr ()) \<longrightarrow>
            length ((idx, n, u) # cr2) + length er2 = length (row # rest))
       \<and> list_all (\<lambda>x. idx \<le> fst x \<and> fst x < idx + length (row # rest)) ((idx, n, u) # cr2)"
      by simp
    then show ?thesis by blast
  next
    case failed
    with ih later have "cr' = created @ cr2 \<and> er' = errors @ (msg # er2)
       \<and> length (row # rest) \<le> length cr2 + length (msg # er2)
       \<and> length cr2 \<le> length (row # rest) \<and> length (msg # er2) \<le> length (row # rest)
       \<and> ((\<forall>t. fst (delay_step E A t) = Inr ()) \<longrightarrow>
            length cr2 + length (msg # er2) = length (row # rest))
       \<and> list_all (\<lambda>x. idx \<le> fst x \<and> fst x < idx + length (row # rest)) cr2"
      by simp
    then show ?thesis by blast
  next
    case both
    from both(3) have "\<not> (\<forall>t. fst (delay_step E A t) = Inr ())"
      by (metis fst_conv sum.distinct(1))
    with both ih later have "cr' = created @ ((idx, n, u) # cr2)
       \<and> er' = errors @ (row_message idx row e # er2)
       \<and> length (row # rest) \<le> length ((idx, n, u) # cr2) + length (row_message idx row e # er2)
       \<and> length ((idx, n, u) # cr2) \<le> length (row # rest)
       \<and> length (row_message idx row e # er2) \<le> length (row # rest)
       \<and> ((\<forall>t. fst (delay_step E A t) = Inr ()) \<longrightarrow>
            length ((idx, n, u) # cr2) + length (row_message idx row e # er2)
              = length (row # rest))
       \<and> list_all (\<lambda>x. idx \<le> fst x \<and> fst x < idx + length (row # rest)) ((idx, n, u) # cr2)"
      by simp
    then show ?thesis by blast
  qed
qed

subsection \<open>A row that cannot be closed\<close>

lemma close_issue_fails:
  assumes "respond E tr (close_cmd url rf reason) None = Completed code out err" "code \<noteq> 0"
  shows "close_issue E url rf reason False tr =
     (Inl (close_failure url err), tr @ [Ran (close_cmd url rf reason) None])"
  using assms by (simp add: close_issue_def close_cmd_def run_def Let_def close_failure_def)

text \<open>
  C1, as the code has it. Take a row whose state is \<open>closed\<close>, outside dry-run mode,
  whose issue is created and attached, and whose close call ends with an error status.
  Then the iteration of the row adds one entry to \<open>errors\<close>, which names the row and
  the failed close, and adds nothing to \<open>created\<close>: the append to \<open>created\<close> stands
  after the close call in the \<open>try\<close>. At the end of the loop the failure list holds
  the entry of the row, and \<open>created\<close> holds no entry with the index of the row beyond
  what it held before.
\<close>

theorem close_failure_is_a_row_failure:
  assumes "state row = ''closed''" and "\<not> arg_dry_run A"
    and "resolve_milestone E A ow rn row cache tr = (Inr ms, cache1, tr1)"
    and "create_issue_with_retry E ow rn row ms (arg_dry_run A) (max 1 (arg_retries A))
           (py_max (Fin 0.1) (arg_retry_base_delay A)) tr1 = (Inr (number, url), tr2)"
    and "attach_step E A row url tr2 = (Inr u, tr3)"
    and "respond E tr3 (close_cmd url rf (close_reason row)) None = Completed code out err"
    and "code \<noteq> 0"
  shows "main_row E A ow rn rf idx row (cache, created, errors) tr =
      (Inr (cache1, created, errors @ [row_message idx row (close_failure url err)]),
       tr3 @ [Ran (close_cmd url rf (close_reason row)) None,
              Printed (RowError (row_message idx row (close_failure url err)))])
    \<and> (main_loop E A ow rn rf idx (row # rest) (cache, created, errors) tr
          = (Inr (c', cr', er'), tr') \<longrightarrow>
        row_message idx row (close_failure url err) \<in> set er'
        \<and> (\<forall>n v. (idx, n, v) \<in> set cr' \<longrightarrow> (idx, n, v) \<in> set created))"
proof (intro conjI impI)
  have cl: "close_step E A rf row url tr3 =
     (Inl (close_failure url err), tr3 @ [Ran (close_cmd url rf (close_reason row)) None])"
    using assms(1,2) close_issue_fails[OF assms(6,7)] by (simp add: close_step_def)
  have body: "row_body E A ow rn rf idx row cache tr =
     (Inl (close_failure url err), cache1, tr3 @ [Ran (close_cmd url rf (close_reason row)) None])"
    using assms(2,3,4,5) cl by (simp add: row_body_def Let_def)
  show row: "main_row E A ow rn rf idx row (cache, created, errors) tr =
      (Inr (cache1, created, errors @ [row_message idx row (close_failure url err)]),
       tr3 @ [Ran (close_cmd url rf (close_reason row)) None,
              Printed (RowError (row_message idx row (close_failure url err)))])"
    using body by (simp add: main_row_def is_Exception_def close_failure_def)
  assume "main_loop E A ow rn rf idx (row # rest) (cache, created, errors) tr
          = (Inr (c', cr', er'), tr')"
  with row have "main_loop E A ow rn rf (Suc idx) rest
      (cache1, created, errors @ [row_message idx row (close_failure url err)])
      (tr3 @ [Ran (close_cmd url rf (close_reason row)) None,
              Printed (RowError (row_message idx row (close_failure url err)))])
      = (Inr (c', cr', er'), tr')"
    by simp
  from main_loop_state[OF this] obtain cr2 er2 where
    s: "cr' = created @ cr2" "er' = (errors @ [row_message idx row (close_failure url err)]) @ er2"
       "list_all (\<lambda>x. Suc idx \<le> fst x \<and> fst x < Suc idx + length rest) cr2"
    by blast
  from s(2) show "row_message idx row (close_failure url err) \<in> set er'" by simp
  from s(3) have "\<forall>x \<in> set cr2. fst x \<noteq> idx" by (auto simp: list_all_iff)
  with s(1) show "\<forall>n v. (idx, n, v) \<in> set cr' \<longrightarrow> (idx, n, v) \<in> set created" by auto
qed

text \<open>
  The run on the file \<open>csv_closed\<close>. The issue is posted and answered with number 7,
  the close call fails, and the summary lists no created issue and one failure.
\<close>

theorem close_failure_counterexample:
  "script env_close_fails args0 (Some csv_closed) [] =
     (1, [Ran (label_list_cmd ''o/r'') None,
          Ran (label_create_cmd ''bug'' ''o/r'') None,
          Ran (issue_post_cmd ''o'' ''r'')
            (Some (json_dumps (JDict [(''title'', JStr ''T''), (''labels'', JList [JStr ''bug''])]))),
          Ran (close_cmd ''https://github.com/o/r/issues/7'' ''o/r'' None) None,
          Printed (RowError (''Row 1 ('' @ sq @ ''T'' @ sq
            @ '') failed: Failed to close issue https://github.com/o/r/issues/7: HTTP 500'')),
          Printed (Summary []
            [''Row 1 ('' @ sq @ ''T'' @ sq
               @ '') failed: Failed to close issue https://github.com/o/r/issues/7: HTTP 500''])])"
  by code_simp

text \<open>The same row in the loop: one failure, nothing created.\<close>

theorem close_failure_is_a_row_failure_witness:
  "state row_t = ''closed'' \<and> \<not> arg_dry_run args0
   \<and> resolve_milestone env_close_fails args0 ''o'' ''r'' row_t None [] = (Inr None, None, [])
   \<and> create_issue_with_retry env_close_fails ''o'' ''r'' row_t None (arg_dry_run args0)
         (max 1 (arg_retries args0)) (py_max (Fin 0.1) (arg_retry_base_delay args0)) []
       = (Inr (7, url7), [post_t])
   \<and> attach_step env_close_fails args0 row_t url7 [post_t] = (Inr (), [post_t])
   \<and> respond env_close_fails [post_t] (close_cmd url7 ''o/r'' (close_reason row_t)) None
       = Completed 1 [] ''HTTP 500''
   \<and> main_row env_close_fails args0 ''o'' ''r'' ''o/r'' 1 row_t (None, [], []) [] =
      (Inr (None, [], [] @ [row_message 1 row_t (close_failure url7 ''HTTP 500'')]),
       [post_t] @ [Ran (close_cmd url7 ''o/r'' (close_reason row_t)) None,
              Printed (RowError (row_message 1 row_t (close_failure url7 ''HTTP 500'')))])
   \<and> main_loop env_close_fails args0 ''o'' ''r'' ''o/r'' 1 [row_t] (None, [], []) [] =
      (Inr (None, [], [row_message 1 row_t (close_failure url7 ''HTTP 500'')]),
       [post_t, Ran (close_cmd url7 ''o/r'' (close_reason row_t)) None,
        Printed (RowError (row_message 1 row_t (close_failure url7 ''HTTP 500'')))])
   \<and> row_message 1 row_t (close_failure url7 ''HTTP 500'')
       \<in> set [row_message 1 row_t (close_failure url7 ''HTTP 500'')]"
proof -
  have a1: "state row_t = ''closed''" by (simp add: row_t_def)
  have a2: "\<not> arg_dry_run args0" by (simp add: args0_def)
  have a3: "resolve_milestone env_close_fails args0 ''o'' ''r'' row_t None [] = (Inr None, None, [])"
    by (simp add: resolve_milestone_def row_t_def)
  have a4: "create_issue_with_retry env_close_fails ''o'' ''r'' row_t None (arg_dry_run args0)
         (max 1 (arg_retries args0)) (py_max (Fin 0.1) (arg_retry_base_delay args0)) []
       = (Inr (7, url7), [post_t])"
    by code_simp
  have a5: "attach_step env_close_fails args0 row_t url7 [post_t] = (Inr (), [post_t])"
    by (simp add: attach_step_def row_t_def)
  have a6: "respond env_close_fails [post_t] (close_cmd url7 ''o/r'' (close_reason row_t)) None
       = Completed 1 [] ''HTTP 500''"
    by code_simp
  have a7: "(1::int) \<noteq> 0" by simp
  have loop: "main_loop env_close_fails args0 ''o'' ''r'' ''o/r'' 1 [row_t] (None, [], []) [] =
      (Inr (None, [], [row_message 1 row_t (close_failure url7 ''HTTP 500'')]),
       [post_t, Ran (close_cmd url7 ''o/r'' (close_reason row_t)) None,
        Printed (RowError (row_message 1 row_t (close_failure url7 ''HTTP 500'')))])"
    by code_simp
  note P = close_failure_is_a_row_failure [OF a1 a2 a3 a4 a5 a6 a7, where idx = 1
      and created = "[]" and errors = "[]" and rest = "[]" and c' = None and cr' = "[]"
      and er' = "[row_message 1 row_t (close_failure url7 ''HTTP 500'')]"
      and tr' = "[post_t, Ran (close_cmd url7 ''o/r'' (close_reason row_t)) None,
        Printed (RowError (row_message 1 row_t (close_failure url7 ''HTTP 500'')))]"]
  from P loop have c: "main_row env_close_fails args0 ''o'' ''r'' ''o/r'' 1 row_t (None, [], []) [] =
      (Inr (None, [], [] @ [row_message 1 row_t (close_failure url7 ''HTTP 500'')]),
       [post_t] @ [Ran (close_cmd url7 ''o/r'' (close_reason row_t)) None,
              Printed (RowError (row_message 1 row_t (close_failure url7 ''HTTP 500'')))])
    \<and> row_message 1 row_t (close_failure url7 ''HTTP 500'')
       \<in> set [row_message 1 row_t (close_failure url7 ''HTTP 500'')]"
    by blast
  from a1 a2 a3 a4 a5 a6 loop c show ?thesis by blast
qed

subsection \<open>The exit status\<close>




subsection \<open>The arguments of the retry wrapper\<close>

lemma add_issue_to_project_v2_trace:
  "\<exists>d. snd (add_issue_to_project_v2 E po pn url dry tr) = tr @ d"
proof (cases dry)
  case True
  then show ?thesis by (simp add: add_issue_to_project_v2_def Let_def)
next
  case False
  let ?args = "[''gh'', ''project'', ''item-add'', str_of_int pn, ''--owner'', po, ''--url'', url]"
  obtain r tr1 where r: "run E ?args None tr = (r, tr1)" by (cases "run E ?args None tr") auto
  from run_trace[OF r] have "tr1 = tr @ [Ran ?args None]" .
  moreover from r False have "snd (add_issue_to_project_v2 E po pn url dry tr) = tr1"
    by (auto simp: add_issue_to_project_v2_def Let_def split: sum.splits prod.splits if_splits)
  ultimately show ?thesis by simp
qed

lemma close_issue_trace: "\<exists>d. snd (close_issue E url repo reason dry tr) = tr @ d"
proof (cases dry)
  case True
  then show ?thesis by (simp add: close_issue_def Let_def)
next
  case False
  obtain r tr1 where r: "run E (close_cmd url repo reason) None tr = (r, tr1)"
    by (cases "run E (close_cmd url repo reason) None tr") auto
  from run_trace[OF r] have "tr1 = tr @ [Ran (close_cmd url repo reason) None]" .
  moreover from r False have "snd (close_issue E url repo reason dry tr) = tr1"
    by (auto simp: close_issue_def close_cmd_def Let_def split: sum.splits prod.splits if_splits)
  ultimately show ?thesis by simp
qed

lemma attach_step_trace: "\<exists>d. snd (attach_step E A row url tr) = tr @ d"
  using add_issue_to_project_v2_trace
  by (auto simp: attach_step_def split: option.splits)

lemma close_step_trace: "\<exists>d. snd (close_step E A rf row url tr) = tr @ d"
  using close_issue_trace by (auto simp: close_step_def)

lemma row_body_after_creation:
  assumes "resolve_milestone E A ow rn row cache tr = (Inr ms, cache1, tr1)"
  shows "\<exists>d. snd (snd (row_body E A ow rn rf idx row cache tr)) =
     snd (create_issue_with_retry E ow rn row ms (arg_dry_run A) (max 1 (arg_retries A))
            (py_max (Fin 0.1) (arg_retry_base_delay A)) tr1) @ d"
proof -
  let ?c = "create_issue_with_retry E ow rn row ms (arg_dry_run A) (max 1 (arg_retries A))
            (py_max (Fin 0.1) (arg_retry_base_delay A)) tr1"
  obtain r tr2 where c: "?c = (r, tr2)" by (cases ?c) auto
  show ?thesis
  proof (cases r)
    case (Inl e)
    with assms c show ?thesis by (simp add: row_body_def)
  next
    case (Inr x)
    obtain number url0 where x: "x = (number, url0)" by (cases x) auto
    let ?url = "if arg_dry_run A then ''https://github.com/'' @ ow @ ''/'' @ rn @ ''/issues/<new>''
                else url0"
    obtain ra tr3 where a: "attach_step E A row ?url tr2 = (ra, tr3)"
      by (cases "attach_step E A row ?url tr2") auto
    from attach_step_trace[of E A row ?url tr2] a obtain d3 where d3: "tr3 = tr2 @ d3" by auto
    show ?thesis
    proof (cases ra)
      case (Inl e)
      with assms c Inr x a d3 show ?thesis by (simp add: row_body_def Let_def)
    next
      case ok: (Inr u)
      obtain rc tr4 where cl: "close_step E A rf row ?url tr3 = (rc, tr4)"
        by (cases "close_step E A rf row ?url tr3") auto
      from close_step_trace[of E A rf row ?url tr3] cl obtain d4 where d4: "tr4 = tr3 @ d4"
        by auto
      show ?thesis
      proof (cases rc)
        case (Inl e)
        with assms c Inr x a ok cl d3 d4 show ?thesis by (simp add: row_body_def Let_def)
      next
        case fin: (Inr v)
        with assms c Inr x a ok cl d3 d4 show ?thesis by (simp add: row_body_def Let_def)
      qed
    qed
  qed
qed

lemma py_max_at_least: "float_ge (py_max (Fin x) d) (Fin x)"
  by (cases d) (simp_all add: py_max_def)

text \<open>
  C10, as the code has it. For every value of \<open>--retries\<close> and \<open>--retry-base-delay\<close>
  (also an infinity and NaN, which \<open>float\<close> accepts), a row whose milestone step does
  not raise reaches the retry wrapper, which the Driver calls with the attempt cap
  \<open>max(1, retries)\<close>, at least 1, and the base delay \<open>max(0.1, retry_base_delay)\<close>, at
  least 0.1; the wrapper then makes at least one attempt to create the issue, and the
  trace of the row contains it.
\<close>

theorem retry_arguments_are_clamped:
  assumes "resolve_milestone E A ow rn row cache tr = (Inr ms, cache1, tr1)"
  shows "1 \<le> max 1 (arg_retries A)
     \<and> float_ge (py_max (Fin 0.1) (arg_retry_base_delay A)) (Fin 0.1)
     \<and> (\<exists>d1 d2.
          snd (create_issue_with_retry E ow rn row ms (arg_dry_run A) (max 1 (arg_retries A))
                 (py_max (Fin 0.1) (arg_retry_base_delay A)) tr1) = tr1 @ d1
          \<and> 1 \<le> attempts d1
          \<and> snd (snd (row_body E A ow rn rf idx row cache tr)) = tr1 @ d1 @ d2)"
proof -
  from retry_from_trace[of 0 E ow rn row ms "arg_dry_run A" "max 1 (arg_retries A)"
      "py_max (Fin 0.1) (arg_retry_base_delay A)" tr1]
  obtain k d1 where k:
    "snd (create_issue_with_retry E ow rn row ms (arg_dry_run A) (max 1 (arg_retries A))
                 (py_max (Fin 0.1) (arg_retry_base_delay A)) tr1) = tr1 @ d1"
    "attempts d1 = Suc k"
    by (auto simp: create_issue_with_retry_def)
  from row_body_after_creation[OF assms, of rf idx] k(1) obtain d2 where
    "snd (snd (row_body E A ow rn rf idx row cache tr)) = tr1 @ d1 @ d2" by auto
  with k have "snd (create_issue_with_retry E ow rn row ms (arg_dry_run A) (max 1 (arg_retries A))
                 (py_max (Fin 0.1) (arg_retry_base_delay A)) tr1) = tr1 @ d1
          \<and> 1 \<le> attempts d1
          \<and> snd (snd (row_body E A ow rn rf idx row cache tr)) = tr1 @ d1 @ d2"
    by simp
  then have "\<exists>d1 d2.
          snd (create_issue_with_retry E ow rn row ms (arg_dry_run A) (max 1 (arg_retries A))
                 (py_max (Fin 0.1) (arg_retry_base_delay A)) tr1) = tr1 @ d1
          \<and> 1 \<le> attempts d1
          \<and> snd (snd (row_body E A ow rn rf idx row cache tr)) = tr1 @ d1 @ d2"
    by blast
  moreover have "float_ge (py_max (Fin 0.1) (arg_retry_base_delay A)) (Fin 0.1)"
    by (rule py_max_at_least)
  ultimately show ?thesis by simp
qed

text \<open>
  A row with a milestone, and a milestone list that fails: the row fails in its
  milestone step, and no attempt to create its issue is made.
\<close>

theorem no_attempt_counterexample:
  "row_body env_milestone_list_fails args_zero ''o'' ''r'' ''o/r'' 1 row_m None [] =
     (Inl (RuntimeError ''Failed to list milestones: HTTP 502''), None, [Ran milestones_cmd None])
   \<and> attempts [Ran milestones_cmd None] = 0
   \<and> main_row env_milestone_list_fails args_zero ''o'' ''r'' ''o/r'' 1 row_m (None, [], []) [] =
     (Inr (None, [], [''Row 1 ('' @ sq @ ''T'' @ sq @ '') failed: Failed to list milestones: HTTP 502'']),
      [Ran milestones_cmd None,
       Printed (RowError (''Row 1 ('' @ sq @ ''T'' @ sq
                 @ '') failed: Failed to list milestones: HTTP 502''))])"
  by code_simp

text \<open>With \<open>--retries 0 --retry-base-delay 0\<close> the row without milestone is posted once.\<close>

theorem retry_arguments_are_clamped_witness:
  "resolve_milestone env_close_fails args_zero ''o'' ''r'' row_t None [] = (Inr None, None, [])
   \<and> arg_retries args_zero = 0 \<and> arg_retry_base_delay args_zero = Fin 0
   \<and> 1 \<le> max 1 (arg_retries args_zero)
   \<and> float_ge (py_max (Fin 0.1) (arg_retry_base_delay args_zero)) (Fin 0.1)
   \<and> py_max (Fin 0.1) (arg_retry_base_delay args_zero) = Fin 0.1
   \<and> (\<exists>d1 d2.
        snd (create_issue_with_retry env_close_fails ''o'' ''r'' row_t None (arg_dry_run args_zero)
               (max 1 (arg_retries args_zero)) (py_max (Fin 0.1) (arg_retry_base_delay args_zero)) [])
          = [] @ d1
        \<and> 1 \<le> attempts d1
        \<and> snd (snd (row_body env_close_fails args_zero ''o'' ''r'' ''o/r'' 1 row_t None []))
            = [] @ d1 @ d2)
   \<and> snd (create_issue_with_retry env_close_fails ''o'' ''r'' row_t None (arg_dry_run args_zero)
               (max 1 (arg_retries args_zero)) (py_max (Fin 0.1) (arg_retry_base_delay args_zero)) [])
       = [post_t]
   \<and> attempts [post_t] = 1"
proof -
  have h: "resolve_milestone env_close_fails args_zero ''o'' ''r'' row_t None []
      = (Inr None, None, [])"
    by (simp add: resolve_milestone_def row_t_def)
  have z: "arg_retries args_zero = 0 \<and> arg_retry_base_delay args_zero = Fin 0"
    by (simp add: args_zero_def)
  have m: "py_max (Fin 0.1) (arg_retry_base_delay args_zero) = Fin 0.1"
    by (simp add: args_zero_def py_max_def)
  have c: "snd (create_issue_with_retry env_close_fails ''o'' ''r'' row_t None (arg_dry_run args_zero)
               (max 1 (arg_retries args_zero)) (py_max (Fin 0.1) (arg_retry_base_delay args_zero)) [])
       = [post_t]"
    by code_simp
  have a: "attempts [post_t] = 1" by code_simp
  from retry_arguments_are_clamped [OF h, of "''o/r''" 1] h z m c a show ?thesis by blast
qed

subsection \<open>Dry runs\<close>

lemma no_mutation_append: "no_mutation (a @ b) \<longleftrightarrow> no_mutation a \<and> no_mutation b"
  by (simp add: no_mutation_def)

lemma no_mutation_printed: "no_mutation [Printed m]"
  by (simp add: no_mutation_def quiet_def)

lemma run_quiet:
  "no_mutation tr \<Longrightarrow> read_only cmd \<Longrightarrow> \<not> mutating cmd \<Longrightarrow> no_mutation (snd (run E cmd inp tr))"
  by (auto simp: run_def no_mutation_def quiet_def split: response.splits)

lemma gh_json_quiet:
  assumes "no_mutation tr" "read_only cmd" "\<not> mutating cmd"
  shows "no_mutation (snd (gh_json E cmd tr))"
proof -
  obtain r tr1 where r: "run E cmd None tr = (r, tr1)" by (cases "run E cmd None tr") auto
  with run_quiet[OF assms, of E None] have "no_mutation tr1" by simp
  moreover from r have "snd (gh_json E cmd tr) = tr1"
    by (auto simp: gh_json_def split: sum.splits prod.splits if_splits)
  ultimately show ?thesis by simp
qed

lemma ensure_repo_quiet:
  assumes "no_mutation tr"
  shows "no_mutation (snd (ensure_repo_name_with_owner E repo tr))"
proof (cases "repo \<noteq> None \<and> repo \<noteq> Some []")
  case True
  with assms show ?thesis by (simp add: ensure_repo_name_with_owner_def)
next
  case False
  let ?cmd = "[''gh'', ''repo'', ''view'', ''--json'', ''nameWithOwner'']"
  have "read_only ?cmd" "\<not> mutating ?cmd" by (simp_all add: read_only_def mutating_def)
  from gh_json_quiet[OF assms this] have q: "no_mutation (snd (gh_json E ?cmd tr))" .
  obtain r tr1 where r: "gh_json E ?cmd tr = (r, tr1)" by (cases "gh_json E ?cmd tr") auto
  with False have "snd (ensure_repo_name_with_owner E repo tr) = tr1"
    by (auto simp: ensure_repo_name_with_owner_def split: sum.splits json.splits option.splits)
  with q r show ?thesis by simp
qed

lemma get_existing_labels_quiet:
  assumes "no_mutation tr"
  shows "no_mutation (snd (get_existing_labels E repo tr))"
proof -
  let ?cmd = "[''gh'', ''label'', ''list'', ''--json'', ''name'', ''-R'', repo]"
  have "read_only ?cmd" "\<not> mutating ?cmd" by (simp_all add: read_only_def mutating_def)
  from gh_json_quiet[OF assms this] have q: "no_mutation (snd (gh_json E ?cmd tr))" .
  obtain r tr1 where r: "gh_json E ?cmd tr = (r, tr1)" by (cases "gh_json E ?cmd tr") auto
  then have "snd (get_existing_labels E repo tr) = tr1"
    by (auto simp: get_existing_labels_def split: sum.splits json.splits)
  with q r show ?thesis by simp
qed

lemma ensure_labels_loop_dry:
  "ensure_labels_loop E repo existing True lbls tr =
     (Inr (), tr @ map (\<lambda>l. Printed (DryRunLabel l repo))
                     (filter (\<lambda>l. py_lower l \<notin> set existing) lbls))"
  by (induction lbls arbitrary: tr) auto

lemma ensure_labels_dry_quiet:
  assumes "no_mutation tr"
  shows "no_mutation (snd (ensure_labels E repo lbls True tr))"
proof (cases "lbls = []")
  case True
  with assms show ?thesis by (simp add: ensure_labels_def)
next
  case False
  obtain r tr1 where r: "get_existing_labels E repo tr = (r, tr1)"
    by (cases "get_existing_labels E repo tr") auto
  with get_existing_labels_quiet[OF assms, of E repo] have q: "no_mutation tr1" by simp
  have p: "no_mutation (map (\<lambda>l. Printed (DryRunLabel l repo)) xs)" for xs
    by (induction xs) (simp_all add: no_mutation_def quiet_def)
  show ?thesis
  proof (cases r)
    case (Inl e)
    with False r q show ?thesis by (simp add: ensure_labels_def)
  next
    case (Inr names)
    show ?thesis
    proof (cases "lower_all names")
      case (Inl e)
      with False r Inr q show ?thesis by (simp add: ensure_labels_def)
    next
      case ex: (Inr existing)
      with False r Inr q p show ?thesis
        by (simp add: ensure_labels_def ensure_labels_loop_dry no_mutation_append)
    qed
  qed
qed

lemma get_milestones_map_quiet:
  assumes "no_mutation tr"
  shows "no_mutation (snd (get_milestones_map E ow rn tr))"
proof -
  let ?cmd = "[''gh'', ''api'', ''--paginate'', ''repos/'' @ ow @ ''/'' @ rn @ ''/milestones'']"
  have "read_only ?cmd" "\<not> mutating ?cmd" by (simp_all add: read_only_def mutating_def)
  from run_quiet[OF assms this, of E None] have q: "no_mutation (snd (run E ?cmd None tr))" .
  obtain r tr1 where r: "run E ?cmd None tr = (r, tr1)" by (cases "run E ?cmd None tr") auto
  then have "snd (get_milestones_map E ow rn tr) = tr1"
    by (auto simp: get_milestones_map_def Let_def split: sum.splits json.splits prod.splits)
  with q r show ?thesis by simp
qed

lemma ensure_milestone_dry_quiet:
  assumes "no_mutation tr"
  shows "no_mutation (snd (ensure_milestone E ow rn t True tr))"
proof -
  obtain r tr1 where r: "get_milestones_map E ow rn tr = (r, tr1)"
    by (cases "get_milestones_map E ow rn tr") auto
  with get_milestones_map_quiet[OF assms, of E ow rn] have q: "no_mutation tr1" by simp
  from r q show ?thesis
    by (auto simp: ensure_milestone_def no_mutation_append no_mutation_printed
        split: sum.splits option.splits)
qed

lemma create_issue_via_api_dry:
  "create_issue_via_api E ow rn row ms True tr =
     (Inr (- 1, ''DRY-RUN''),
      tr @ [Printed (DryRunPost (''repos/'' @ ow @ ''/'' @ rn @ ''/issues'') (issue_payload row ms))])"
  by (simp add: create_issue_via_api_def Let_def)

lemma create_issue_with_retry_dry:
  "create_issue_with_retry E ow rn row ms True n d tr =
     (Inr (- 1, ''DRY-RUN''),
      tr @ [Printed (DryRunPost (''repos/'' @ ow @ ''/'' @ rn @ ''/issues'') (issue_payload row ms))])"
  unfolding create_issue_with_retry_def
  by (subst create_issue_with_retry_from.simps) (simp add: create_issue_via_api_dry Let_def)

lemma add_issue_to_project_v2_dry:
  "add_issue_to_project_v2 E po pn url True tr =
     (Inr (), tr @ [Printed (DryRunCommand
        [''gh'', ''project'', ''item-add'', str_of_int pn, ''--owner'', po, ''--url'', url])])"
  by (simp add: add_issue_to_project_v2_def Let_def)

lemma close_issue_dry:
  "close_issue E url repo reason True tr =
     (Inr (), tr @ [Printed (DryRunCommand (close_cmd url repo reason))])"
  by (simp add: close_issue_def close_cmd_def Let_def)

lemma resolve_milestone_dry_quiet:
  assumes "arg_dry_run A" "no_mutation tr"
  shows "no_mutation (snd (snd (resolve_milestone E A ow rn row cache tr)))"
proof (cases "milestone row")
  case None
  with assms show ?thesis by (simp add: resolve_milestone_def)
next
  case (Some m)
  show ?thesis
  proof (cases "m = []")
    case True
    with Some assms show ?thesis by (simp add: resolve_milestone_def)
  next
    case False
    let ?f = "case cache of Some c \<Rightarrow> (Inr c, tr) | None \<Rightarrow> get_milestones_map E ow rn tr"
    obtain r tr1 where f: "?f = (r, tr1)" by (cases ?f) auto
    have q1: "no_mutation tr1"
    proof (cases cache)
      case None
      with f get_milestones_map_quiet[OF assms(2), of E ow rn] show ?thesis by simp
    next
      case (Some c)
      with f assms(2) show ?thesis by auto
    qed
    show ?thesis
    proof (cases r)
      case (Inl e)
      with Some False f q1 show ?thesis by (simp add: resolve_milestone_def)
    next
      case (Inr c)
      show ?thesis
      proof (cases "map_of c (py_lower m) = None \<and> \<not> arg_no_milestone_create A")
        case True
        obtain r2 tr2 where e: "ensure_milestone E ow rn m True tr1 = (r2, tr2)"
          by (cases "ensure_milestone E ow rn m True tr1") auto
        with ensure_milestone_dry_quiet[OF q1, of E ow rn m] have q2: "no_mutation tr2" by simp
        from Some False f Inr True e assms(1) q2 show ?thesis
          by (auto simp: resolve_milestone_def Let_def split: sum.splits)
      next
        case no: False
        with Some False f Inr q1 show ?thesis
          by (auto simp: resolve_milestone_def Let_def no_mutation_append no_mutation_printed
              split: option.splits)
      qed
    qed
  qed
qed

lemma row_body_dry_quiet:
  assumes "arg_dry_run A" "no_mutation tr"
  shows "no_mutation (snd (snd (row_body E A ow rn rf idx row cache tr)))"
proof -
  obtain r cache1 tr1 where m: "resolve_milestone E A ow rn row cache tr = (r, cache1, tr1)"
    by (cases "resolve_milestone E A ow rn row cache tr") auto
  with resolve_milestone_dry_quiet[OF assms, of E ow rn row cache] have q1: "no_mutation tr1"
    by simp
  show ?thesis
  proof (cases r)
    case (Inl e)
    with m q1 show ?thesis by (simp add: row_body_def)
  next
    case (Inr ms)
    have at: "\<exists>d. attach_step E A row url t = (Inr (), t @ d) \<and> no_mutation d" for url t
    proof -
      have "attach_step E A row url t = (Inr (), t @ [])
          \<or> (\<exists>m. attach_step E A row url t = (Inr (), t @ [Printed m]))"
        using assms(1)
        by (auto simp: attach_step_def add_issue_to_project_v2_dry split: option.splits)
      then show ?thesis
        using no_mutation_printed by (auto simp: no_mutation_def)
    qed
    have cl: "\<exists>d. close_step E A rf row url t = (Inr (), t @ d) \<and> no_mutation d" for url t
    proof -
      have "close_step E A rf row url t = (Inr (), t @ [])
          \<or> (\<exists>m. close_step E A rf row url t = (Inr (), t @ [Printed m]))"
        using assms(1) by (auto simp: close_step_def close_issue_dry)
      then show ?thesis
        using no_mutation_printed by (auto simp: no_mutation_def)
    qed
    let ?url = "''https://github.com/'' @ ow @ ''/'' @ rn @ ''/issues/<new>''"
    let ?tr2 = "tr1 @ [Printed (DryRunPost (''repos/'' @ ow @ ''/'' @ rn @ ''/issues'')
                 (issue_payload row ms))]"
    from at[of ?url ?tr2] obtain d3 where
      d3: "attach_step E A row ?url ?tr2 = (Inr (), ?tr2 @ d3)" "no_mutation d3" by blast
    from cl[of ?url "?tr2 @ d3"] obtain d4 where
      d4: "close_step E A rf row ?url (?tr2 @ d3) = (Inr (), (?tr2 @ d3) @ d4)" "no_mutation d4"
      by blast
    from m Inr assms(1) d3(1) d4(1)
    have "snd (snd (row_body E A ow rn rf idx row cache tr)) = (?tr2 @ d3) @ d4"
      by (simp add: row_body_def create_issue_with_retry_dry Let_def)
    with q1 d3(2) d4(2) show ?thesis
      by (simp add: no_mutation_def quiet_def)
  qed
qed

lemma main_row_dry_quiet:
  assumes "arg_dry_run A" "no_mutation tr"
  shows "no_mutation (snd (main_row E A ow rn rf idx row st tr))"
proof -
  obtain cache created errors where st: "st = (cache, created, errors)" by (cases st) auto
  obtain r cache1 tr1 where b: "row_body E A ow rn rf idx row cache tr = (r, cache1, tr1)"
    by (cases "row_body E A ow rn rf idx row cache tr") auto
  with row_body_dry_quiet[OF assms, of E ow rn rf idx row cache] have "no_mutation tr1" by simp
  moreover have "delay_step E A tr1 = (Inr (), tr1)" using assms(1) by (simp add: delay_step_def)
  ultimately show ?thesis using st b
    by (auto simp: main_row_def no_mutation_append no_mutation_printed split: sum.splits)
qed

lemma main_loop_dry_quiet:
  "arg_dry_run A \<Longrightarrow> no_mutation tr \<Longrightarrow>
     no_mutation (snd (main_loop E A ow rn rf idx rows st tr))"
proof (induction rows arbitrary: idx st tr)
  case Nil
  then show ?case by simp
next
  case (Cons row rest)
  obtain r tr1 where m: "main_row E A ow rn rf idx row st tr = (r, tr1)"
    by (cases "main_row E A ow rn rf idx row st tr") auto
  with main_row_dry_quiet[OF Cons.prems, of E ow rn rf idx row st] have q: "no_mutation tr1"
    by simp
  show ?case
  proof (cases r)
    case (Inl e)
    with m q show ?thesis by simp
  next
    case (Inr st1)
    with m Cons.IH[OF Cons.prems(1) q] show ?thesis by simp
  qed
qed

lemma read_csv_from_quiet:
  "no_mutation tr \<Longrightarrow> no_mutation (snd (read_csv_from i raws tr))"
proof (induction raws arbitrary: i tr)
  case Nil
  then show ?case by simp
next
  case (Cons raw rest)
  have p: "no_mutation (tr @ [Printed (SkipRow i)])"
    using Cons.prems by (simp add: no_mutation_append no_mutation_printed)
  from Cons.IH[OF Cons.prems, of "Suc i"] Cons.IH[OF p, of "Suc i"] Cons.prems
  show ?case
    by (auto split: sum.splits prod.splits)
qed

lemma import_rows_dry_quiet:
  assumes "arg_dry_run A" "no_mutation tr"
  shows "no_mutation (snd (import_rows E A ow rn rf rows tr))"
proof -
  obtain r tr1 where l: "label_step E A rf rows tr = (r, tr1)"
    by (cases "label_step E A rf rows tr") auto
  have "no_mutation (snd (label_step E A rf rows tr))"
    using assms ensure_labels_dry_quiet[OF assms(2)] by (simp add: label_step_def)
  with l have q: "no_mutation tr1" by simp
  show ?thesis
  proof (cases r)
    case (Inl e)
    with l q show ?thesis by (simp add: import_rows_def)
  next
    case (Inr u)
    with l main_loop_dry_quiet[OF assms(1) q] show ?thesis by (simp add: import_rows_def)
  qed
qed

lemma main_dry_quiet:
  assumes "arg_dry_run A" "no_mutation tr"
  shows "no_mutation (snd (main E A csv_file tr))"
proof (cases csv_file)
  case None
  with assms show ?thesis by (simp add: main_def no_mutation_append no_mutation_printed)
next
  case (Some raws)
  obtain r tr1 where e: "ensure_repo_name_with_owner E (arg_repo A) tr = (r, tr1)"
    by (cases "ensure_repo_name_with_owner E (arg_repo A) tr") auto
  with ensure_repo_quiet[OF assms(2), of E "arg_repo A"] have q1: "no_mutation tr1" by simp
  obtain r2 tr2 where c: "read_csv raws tr1 = (r2, tr2)" by (cases "read_csv raws tr1") auto
  with read_csv_from_quiet[OF q1, of 2 raws] have q2: "no_mutation tr2"
    by (simp add: read_csv_def)
  have q3: "no_mutation tr3" if "import_rows E A ow rn rf rows tr2 = (r3, tr3)"
    for ow rn rf rows r3 tr3
    using import_rows_dry_quiet[OF assms(1) q2, of E ow rn rf rows] that by simp
  from Some e c q1 q2 show ?thesis
    by (auto simp: main_def no_mutation_append no_mutation_printed dest: q3
        split: sum.splits json.splits list.splits prod.splits)
qed

text \<open>
  C4. In dry-run mode the whole script, started on a trace without mutation, ends on a
  trace without mutation, for every environment and every input file: the only
  commands it runs are the repository view, the label list and the milestone list.
  Each operation that would change something prints what it would do and returns:
  the creation of an issue, the project attachment and the closing print the request
  or the command line and run nothing; the label loop prints one line for every label
  that is missing and runs nothing; \<open>ensure_milestone\<close> reads the list and, for a
  missing title, prints and returns \<open>-1\<close>.
\<close>

theorem dry_run_makes_no_mutation:
  assumes "arg_dry_run A" and "no_mutation tr"
  shows "no_mutation (snd (script E A csv_file tr))
     \<and> create_issue_via_api E ow rn row ms True tr =
         (Inr (- 1, ''DRY-RUN''),
          tr @ [Printed (DryRunPost (''repos/'' @ ow @ ''/'' @ rn @ ''/issues'')
                  (issue_payload row ms))])
     \<and> add_issue_to_project_v2 E po pn url True tr =
         (Inr (), tr @ [Printed (DryRunCommand
            [''gh'', ''project'', ''item-add'', str_of_int pn, ''--owner'', po, ''--url'', url])])
     \<and> close_issue E url repo reason True tr =
         (Inr (), tr @ [Printed (DryRunCommand (close_cmd url repo reason))])
     \<and> ensure_labels_loop E repo existing True lbls tr =
         (Inr (), tr @ map (\<lambda>l. Printed (DryRunLabel l repo))
                         (filter (\<lambda>l. py_lower l \<notin> set existing) lbls))
     \<and> (get_milestones_map E ow rn tr = (Inr m, tr1) \<and> map_of m (py_lower t) = None \<longrightarrow>
          ensure_milestone E ow rn t True tr =
            (Inr (- 1), tr1 @ [Printed (DryRunMilestone t ow rn)]))"
proof (intro conjI impI)
  obtain r tr2 where m: "main E A csv_file tr = (r, tr2)" by (cases "main E A csv_file tr") auto
  with main_dry_quiet[OF assms, of E csv_file] have "no_mutation tr2" by simp
  with m show "no_mutation (snd (script E A csv_file tr))"
    by (auto simp: script_def no_mutation_append no_mutation_printed split: sum.splits)
next
  show "create_issue_via_api E ow rn row ms True tr =
         (Inr (- 1, ''DRY-RUN''),
          tr @ [Printed (DryRunPost (''repos/'' @ ow @ ''/'' @ rn @ ''/issues'')
                  (issue_payload row ms))])"
    by (rule create_issue_via_api_dry)
next
  show "add_issue_to_project_v2 E po pn url True tr =
         (Inr (), tr @ [Printed (DryRunCommand
            [''gh'', ''project'', ''item-add'', str_of_int pn, ''--owner'', po, ''--url'', url])])"
    by (rule add_issue_to_project_v2_dry)
next
  show "close_issue E url repo reason True tr =
         (Inr (), tr @ [Printed (DryRunCommand (close_cmd url repo reason))])"
    by (rule close_issue_dry)
next
  show "ensure_labels_loop E repo existing True lbls tr =
         (Inr (), tr @ map (\<lambda>l. Printed (DryRunLabel l repo))
                         (filter (\<lambda>l. py_lower l \<notin> set existing) lbls))"
    by (rule ensure_labels_loop_dry)
next
  assume "get_milestones_map E ow rn tr = (Inr m, tr1) \<and> map_of m (py_lower t) = None"
  then show "ensure_milestone E ow rn t True tr =
            (Inr (- 1), tr1 @ [Printed (DryRunMilestone t ow rn)])"
    by (simp add: ensure_milestone_def)
qed

text \<open>
  A dry run over a row with a label, a milestone, a project and the state \<open>closed\<close>:
  two kinds of read commands and six printed lines. The same input without the
  dry-run flag does change the repository.
\<close>

theorem dry_run_makes_no_mutation_witness:
  "arg_dry_run args_dry \<and> no_mutation []
   \<and> script env_dry args_dry (Some csv_full) [] =
       (0, [Ran (label_list_cmd ''o/r'') None,
            Printed (DryRunLabel ''bug'' ''o/r''),
            Ran milestones_cmd None,
            Ran milestones_cmd None,
            Printed (DryRunMilestone ''V9'' ''o'' ''r''),
            Printed (DryRunPost ''repos/o/r/issues''
              (JDict [(''title'', JStr ''T''), (''labels'', JList [JStr ''bug''])])),
            Printed (DryRunCommand
              [''gh'', ''project'', ''item-add'', ''3'', ''--owner'', ''acme'', ''--url'', url_new]),
            Printed (DryRunCommand (close_cmd url_new ''o/r'' (Some ''completed''))),
            Printed (Summary [(1, ''-1'', url_new)] [])])
   \<and> no_mutation (snd (script env_dry args_dry (Some csv_full) []))
   \<and> get_milestones_map env_dry ''o'' ''r'' [] = (Inr [(''v1'', 1)], [Ran milestones_cmd None])
   \<and> map_of [(''v1'', 1::int)] (py_lower ''V9'') = None
   \<and> ensure_milestone env_dry ''o'' ''r'' ''V9'' True [] =
       (Inr (- 1), [Ran milestones_cmd None] @ [Printed (DryRunMilestone ''V9'' ''o'' ''r'')])
   \<and> \<not> no_mutation (snd (script env_dry args0 (Some csv_full) []))"
proof -
  have d: "arg_dry_run args_dry" by (simp add: args_dry_def)
  have n: "no_mutation []" by (simp add: no_mutation_def)
  have s: "script env_dry args_dry (Some csv_full) [] =
       (0, [Ran (label_list_cmd ''o/r'') None,
            Printed (DryRunLabel ''bug'' ''o/r''),
            Ran milestones_cmd None,
            Ran milestones_cmd None,
            Printed (DryRunMilestone ''V9'' ''o'' ''r''),
            Printed (DryRunPost ''repos/o/r/issues''
              (JDict [(''title'', JStr ''T''), (''labels'', JList [JStr ''bug''])])),
            Printed (DryRunCommand
              [''gh'', ''project'', ''item-add'', ''3'', ''--owner'', ''acme'', ''--url'', url_new]),
            Printed (DryRunCommand (close_cmd url_new ''o/r'' (Some ''completed''))),
            Printed (Summary [(1, ''-1'', url_new)] [])])"
    by code_simp
  have g: "get_milestones_map env_dry ''o'' ''r'' [] = (Inr [(''v1'', 1)], [Ran milestones_cmd None])"
    by code_simp
  have l: "map_of [(''v1'', 1::int)] (py_lower ''V9'') = None" by code_simp
  have real: "\<not> no_mutation (snd (script env_dry args0 (Some csv_full) []))" by code_simp
  note P = dry_run_makes_no_mutation [OF d n, where E = env_dry and csv_file = "Some csv_full"
      and ow = "''o''" and rn = "''r''" and m = "[(''v1'', 1)]"
      and ?tr1.0 = "[Ran milestones_cmd None]" and t = "''V9''"]
  from P have q: "no_mutation (snd (script env_dry args_dry (Some csv_full) []))" by blast
  from P g l have e: "ensure_milestone env_dry ''o'' ''r'' ''V9'' True [] =
       (Inr (- 1), [Ran milestones_cmd None] @ [Printed (DryRunMilestone ''V9'' ''o'' ''r'')])"
    by blast
  from d n s q g l e real show ?thesis by blast
qed

end
